theory Spec2Isabelle
  imports Complex_Main
begin

section \<open>Numbers and loosely typed values\<close>

text \<open>
  The program computes with JavaScript numbers.  Finite numbers are modelled as
  real numbers (rounding and overflow are not modelled).  The non-finite values
  are kept apart: the source tests for them (\<open>isFinite\<close>), and arithmetic on
  \<open>undefined\<close> gives \<open>NaN\<close>, which then spreads through every later operation.
  Percentages, rates, radii, scales and times are finite and have type \<open>real\<close>;
  the position and the rotation of a drawable and the phase of an orbit, which
  the program computes from property reads, have type \<open>jsnum\<close>.
\<close>

datatype jsnum = Fin real | PosInf | NegInf | NaN

text \<open>
  A loosely typed value whose conversion to a number succeeds: a number, \<open>null\<close>,
  \<open>undefined\<close>, or any other value (a string, a boolean, an array, ...), which is
  represented by the number that the built-in coercion \<open>Number(v)\<close> gives for it.
  The optional numeric fields of a layer configuration (\<open>number | null\<close>, possibly
  absent) and the \<open>number\<close> arguments of the control operations are such values.
\<close>

datatype jsval = JNumber jsnum | JNull | JUndefined | JOther jsnum

text \<open>
  A value of type \<open>unknown\<close>: one of the above, or a value that \<open>Number(v)\<close> cannot
  convert, namely a Symbol or an object without a primitive value (such as
  \<open>Object.create(null)\<close>); for these \<open>Number(v)\<close> throws a \<open>TypeError\<close>.
\<close>

datatype unknown = Converts jsval | Unconvertible

text \<open>The errors that the modelled code throws.\<close>

datatype error = TypeError | ReferenceError

fun isFinite :: "jsnum \<Rightarrow> bool" where
  "isFinite (Fin r) = True"
| "isFinite PosInf = False"
| "isFinite NegInf = False"
| "isFinite NaN = False"

text \<open>\<open>n <= 0\<close> on a JavaScript number: false for NaN, true for \<open>-Infinity\<close>.\<close>

fun le_zero :: "jsnum \<Rightarrow> bool" where
  "le_zero (Fin r) = (r \<le> 0)"
| "le_zero PosInf = False"
| "le_zero NegInf = True"
| "le_zero NaN = False"

section \<open>CORE/math\<close>

definition toRad :: "real \<Rightarrow> real" where
  "toRad deg = (deg * pi) / 180"

definition clamp :: "real \<Rightarrow> real \<Rightarrow> real \<Rightarrow> real" where
  "clamp n mn mx = max mn (min mx n)"

definition clamp01 :: "real \<Rightarrow> real" where
  "clamp01 n = clamp n 0 1"

text \<open>
  The remainder operator \<open>a % b\<close> of JavaScript on finite numbers with \<open>b \<noteq> 0\<close>:
  the quotient is truncated towards zero, so the result has the sign of \<open>a\<close>.
\<close>

definition trunc :: "real \<Rightarrow> int" where
  "trunc q = (if 0 \<le> q then \<lfloor>q\<rfloor> else \<lceil>q\<rceil>)"

definition jsrem :: "real \<Rightarrow> real \<Rightarrow> real" where
  "jsrem a b = a - b * of_int (trunc (a / b))"

definition normDeg :: "real \<Rightarrow> real" where
  "normDeg deg = (let d = jsrem deg 360 in if d < 0 then d + 360 else d)"

text \<open>
  \<open>clampRpm60(v: unknown)\<close>.  The first line,
  \<open>typeof v === 'number' ? v : v == null ? 0 : Number(v)\<close>, coerces the input to a
  number: \<open>valueNumber\<close> is its result on a value that converts, and
  \<open>coerceNumber\<close> is the line on every input, with the \<open>TypeError\<close> that
  \<open>Number(v)\<close> throws for a value that does not convert.  The second line returns
  0 for a number that is not finite or not positive, and the third clamps what
  is left, a finite positive number (\<open>clampNumber\<close>).
\<close>

definition valueNumber :: "jsval \<Rightarrow> jsnum" where
  "valueNumber v = (case v of JNumber n \<Rightarrow> n | JNull \<Rightarrow> Fin 0 | JUndefined \<Rightarrow> Fin 0 | JOther n \<Rightarrow> n)"

definition coerceNumber :: "unknown \<Rightarrow> error + jsnum" where
  "coerceNumber v = (case v of Converts x \<Rightarrow> Inr (valueNumber x) | Unconvertible \<Rightarrow> Inl TypeError)"

definition clampNumber :: "jsnum \<Rightarrow> real" where
  "clampNumber n =
     (if \<not> isFinite n \<or> le_zero n then 0
      else (case n of Fin r \<Rightarrow> min 60 (max 0 r) | _ \<Rightarrow> 0))"

text \<open>The function on every input of type \<open>unknown\<close>: it returns a number or throws.\<close>

definition clampRpm60_unknown :: "unknown \<Rightarrow> error + real" where
  "clampRpm60_unknown v =
     (case coerceNumber v of Inl err \<Rightarrow> Inl err | Inr n \<Rightarrow> Inr (clampNumber n))"

text \<open>
  The function on the values that convert, where it cannot throw.  The
  processors call it with configuration fields and \<open>number\<close> arguments only.
\<close>

definition clampRpm60 :: "jsval \<Rightarrow> real" where
  "clampRpm60 v = clampNumber (valueNumber v)"

text \<open>
  \<open>Math.hypot\<close> and \<open>Math.atan2\<close> on finite numbers.  The reals have a single
  zero, so \<open>atan2\<close> gives \<open>pi\<close> on the negative x-axis and 0 at the origin.
\<close>

definition hypot :: "real \<Rightarrow> real \<Rightarrow> real" where
  "hypot a b = sqrt (a\<^sup>2 + b\<^sup>2)"

definition atan2 :: "real \<Rightarrow> real \<Rightarrow> real" where
  "atan2 y x =
     (if 0 < x then arctan (y / x)
      else if x < 0 then (if 0 \<le> y then arctan (y / x) + pi else arctan (y / x) - pi)
      else if 0 < y then pi / 2
      else if y < 0 then - (pi / 2)
      else 0)"

text \<open>
  Arithmetic on numbers that may not be finite, as the language defines it:
  an operation with a \<open>NaN\<close> operand gives \<open>NaN\<close>, as do the difference of two
  infinities of the same sign, the product of 0 and an infinity, and the sine
  or cosine of an infinity.
\<close>

fun js_neg :: "jsnum \<Rightarrow> jsnum" where
  "js_neg (Fin a) = Fin (- a)"
| "js_neg PosInf = NegInf"
| "js_neg NegInf = PosInf"
| "js_neg NaN = NaN"

fun js_add :: "jsnum \<Rightarrow> jsnum \<Rightarrow> jsnum" where
  "js_add (Fin a) (Fin b) = Fin (a + b)"
| "js_add NaN b = NaN"
| "js_add a NaN = NaN"
| "js_add PosInf NegInf = NaN"
| "js_add NegInf PosInf = NaN"
| "js_add PosInf b = PosInf"
| "js_add NegInf b = NegInf"
| "js_add a PosInf = PosInf"
| "js_add a NegInf = NegInf"

definition js_sub :: "jsnum \<Rightarrow> jsnum \<Rightarrow> jsnum" where
  "js_sub a b = js_add a (js_neg b)"

fun js_mul :: "jsnum \<Rightarrow> jsnum \<Rightarrow> jsnum" where
  "js_mul (Fin a) (Fin b) = Fin (a * b)"
| "js_mul NaN b = NaN"
| "js_mul a NaN = NaN"
| "js_mul (Fin a) PosInf = (if a = 0 then NaN else if 0 < a then PosInf else NegInf)"
| "js_mul (Fin a) NegInf = (if a = 0 then NaN else if 0 < a then NegInf else PosInf)"
| "js_mul PosInf (Fin b) = (if b = 0 then NaN else if 0 < b then PosInf else NegInf)"
| "js_mul NegInf (Fin b) = (if b = 0 then NaN else if 0 < b then NegInf else PosInf)"
| "js_mul PosInf PosInf = PosInf"
| "js_mul PosInf NegInf = NegInf"
| "js_mul NegInf PosInf = NegInf"
| "js_mul NegInf NegInf = PosInf"

fun js_cos :: "jsnum \<Rightarrow> jsnum" where
  "js_cos (Fin a) = Fin (cos a)"
| "js_cos a = NaN"

fun js_sin :: "jsnum \<Rightarrow> jsnum" where
  "js_sin (Fin a) = Fin (sin a)"
| "js_sin a = NaN"

fun js_atan2 :: "jsnum \<Rightarrow> jsnum \<Rightarrow> jsnum" where
  "js_atan2 (Fin y) (Fin x) = Fin (atan2 y x)"
| "js_atan2 NaN x = NaN"
| "js_atan2 y NaN = NaN"
| "js_atan2 (Fin y) PosInf = Fin 0"
| "js_atan2 (Fin y) NegInf = Fin (if y < 0 then - pi else pi)"
| "js_atan2 PosInf (Fin x) = Fin (pi / 2)"
| "js_atan2 NegInf (Fin x) = Fin (- (pi / 2))"
| "js_atan2 PosInf PosInf = Fin (pi / 4)"
| "js_atan2 PosInf NegInf = Fin (3 * pi / 4)"
| "js_atan2 NegInf PosInf = Fin (- (pi / 4))"
| "js_atan2 NegInf NegInf = Fin (- (3 * pi / 4))"

section \<open>CORE/types and CORE/utils\<close>

datatype Direction = CW | CCW

datatype OrientPolicy = PolicyNone | PolicyAuto | PolicyOverride

datatype Easing = Linear | SineInOut

datatype PulseProperty = PropScale | PropAlpha

datatype TiltMode = ModePointer | ModeDevice | ModeTime

datatype TiltAxis = AxisBoth | AxisX | AxisY

text \<open>
  Effect declarations as the configuration gives them.  A field is \<open>None\<close> when
  it is absent or not of the type the normalizer tests for.  \<open>OtherEffect\<close> is an
  entry that is not an object or whose \<open>type\<close> is none of the seven known ones.
\<close>

datatype EffectConfig =
    FadeEffect "real option" "real option" "real option" "bool option" "Easing option"
  | PulseEffect "PulseProperty option" "real option" "real option" "real option"
  | TiltEffect "TiltMode option" "TiltAxis option" "real option" "real option"
  | GlowEffect "real option" "real option" "real option" "real option"
  | BloomEffect "real option" "real option"
  | DistortEffect "real option" "real option"
  | ShockwaveEffect "real option" "real option" "bool option"
  | OtherEffect

record LayerConfig =
  cfg_id :: string
  position :: "(real \<times> real) option"
  scale_pct :: "real option"
  angleDeg :: "real option"
  spinRPM :: jsval
  spinDir :: "Direction option"
  orbitRPM :: jsval
  orbitDir :: "Direction option"
  orbitCenter :: "(real \<times> real) option"
  orbitPhaseDeg :: jsval
  orbitOrientPolicy :: "OrientPolicy option"
  orbitOrientDeg :: jsval
  effects :: "EffectConfig list"

text \<open>
  A drawable of the rendering library, with the fields the processors read and
  write.  Drawables of layers are shared by all processors, so they live in a
  store and are referred to by handle.
\<close>

record Sprite =
  pos_x :: jsnum
  pos_y :: jsnum
  rotation :: jsnum
  alpha :: real
  scale_x :: real
  scale_y :: real
  tint :: real
  blendMode :: nat

type_synonym handle = nat

type_synonym store = "handle \<Rightarrow> Sprite"

record BuiltLayer =
  layer_id :: string
  layer_sprite :: handle
  layer_cfg :: LayerConfig

definition STAGE_WIDTH :: real where
  "STAGE_WIDTH = 1024"

definition STAGE_HEIGHT :: real where
  "STAGE_HEIGHT = 1024"

text \<open>
  An object \<open>{x, y}\<close> of two numbers is the pair \<open>(x, y)\<close>: \<open>fst\<close> reads its
  property \<open>x\<close> and \<open>snd\<close> its property \<open>y\<close>.  \<open>numProp\<close> is the read of a
  property by its name where the result is used in arithmetic: the object has
  the keys \<open>x\<close> and \<open>y\<close> and no other, so the property of any other name is
  \<open>undefined\<close>, which arithmetic converts to \<open>NaN\<close>.
\<close>

definition numProp :: "real \<times> real \<Rightarrow> string \<Rightarrow> jsnum" where
  "numProp obj key =
     (if key = ''x'' then Fin (fst obj) else if key = ''y'' then Fin (snd obj) else NaN)"

definition percentToStageCoords :: "real \<Rightarrow> real \<Rightarrow> real \<Rightarrow> real \<Rightarrow> real \<times> real" where
  "percentToStageCoords xPct yPct stageWidth stageHeight =
     ((xPct / 100) * stageWidth, (yPct / 100) * stageHeight)"

section \<open>SpinL\<close>

record SpinItem =
  sprite :: handle
  layerId :: string
  baseRotation :: jsnum
  radPerSecond :: real
  direction :: real
  rpm :: real
  active :: bool

record SpinConfig =
  sc_rpm :: real
  sc_direction :: Direction
  sc_enabled :: bool

definition rpmToRadPerSecond :: "real \<Rightarrow> real" where
  "rpmToRadPerSecond r = (r * pi) / 30"

definition createSpinConfig :: "LayerConfig \<Rightarrow> SpinConfig" where
  "createSpinConfig cfg =
     (let r = clampRpm60 (spinRPM cfg);
          d = (if spinDir cfg = Some CCW then CCW else CW);
          en = (0 < r)
      in \<lparr> sc_rpm = r, sc_direction = d, sc_enabled = en \<rparr>)"

definition createSpinItem :: "store \<Rightarrow> BuiltLayer \<Rightarrow> SpinItem option" where
  "createSpinItem st layer =
     (let spinConfig = createSpinConfig (layer_cfg layer) in
      if \<not> sc_enabled spinConfig then None
      else Some \<lparr> sprite = layer_sprite layer,
                   layerId = layer_id layer,
                   baseRotation = rotation (st (layer_sprite layer)),
                   radPerSecond = rpmToRadPerSecond (sc_rpm spinConfig),
                   direction = (if sc_direction spinConfig = CCW then - 1 else 1),
                   rpm = sc_rpm spinConfig,
                   active = True \<rparr>)"

definition updateSpinItem :: "SpinItem \<Rightarrow> real \<Rightarrow> store \<Rightarrow> store" where
  "updateSpinItem item elapsed st =
     (if \<not> active item then st
      else st (sprite item := (st (sprite item))
             \<lparr> rotation := js_add (baseRotation item)
                                  (Fin (direction item * radPerSecond item * elapsed)) \<rparr>))"

text \<open>The loop of \<open>buildSpinSystem\<close>: items are pushed in layer order, and a later
  layer with the same drawable overwrites the map entry of an earlier one.\<close>

fun buildSpinItems :: "store \<Rightarrow> BuiltLayer list \<Rightarrow> SpinItem list" where
  "buildSpinItems st [] = []"
| "buildSpinItems st (layer # layers) =
     (case createSpinItem st layer of
        None \<Rightarrow> buildSpinItems st layers
      | Some item \<Rightarrow> item # buildSpinItems st layers)"

fun buildRpmBySprite :: "BuiltLayer list \<Rightarrow> (handle \<rightharpoonup> real) \<Rightarrow> (handle \<rightharpoonup> real)" where
  "buildRpmBySprite [] m = m"
| "buildRpmBySprite (layer # layers) m =
     buildRpmBySprite layers (m (layer_sprite layer \<mapsto> sc_rpm (createSpinConfig (layer_cfg layer))))"

definition buildSpinSystem :: "store \<Rightarrow> BuiltLayer list \<Rightarrow> SpinItem list \<times> (handle \<rightharpoonup> real)" where
  "buildSpinSystem st layers = (buildSpinItems st layers, buildRpmBySprite layers Map.empty)"

fun tickSpinSystem :: "SpinItem list \<Rightarrow> real \<Rightarrow> store \<Rightarrow> store" where
  "tickSpinSystem [] elapsed st = st"
| "tickSpinSystem (item # items) elapsed st = tickSpinSystem items elapsed (updateSpinItem item elapsed st)"

text \<open>The processor object: its private fields, and the store of drawables it writes to.\<close>

record SpinLProcessor =
  items :: "SpinItem list"
  rpmBySprite :: "handle \<rightharpoonup> real"
  elapsedTime :: real

definition SpinL_init :: "store \<Rightarrow> BuiltLayer list \<Rightarrow> SpinLProcessor" where
  "SpinL_init st layers =
     (let system = buildSpinSystem st layers
      in \<lparr> items = fst system, rpmBySprite = snd system, elapsedTime = 0 \<rparr>)"

definition SpinL_tick :: "real \<Rightarrow> SpinLProcessor \<times> store \<Rightarrow> SpinLProcessor \<times> store" where
  "SpinL_tick deltaTime ps =
     (let p = fst ps; st = snd ps in
      if items p = [] then (p, st)
      else (let p' = p \<lparr> elapsedTime := elapsedTime p + deltaTime \<rparr>
            in (p', tickSpinSystem (items p') (elapsedTime p') st)))"

definition SpinL_getRPM :: "SpinLProcessor \<Rightarrow> handle \<Rightarrow> real" where
  "SpinL_getRPM p s = (case rpmBySprite p s of None \<Rightarrow> 0 | Some r \<Rightarrow> r)"

text \<open>\<open>items.find(pred)\<close> followed by a mutation of the item found: the first
  item that satisfies the predicate is changed in place, and nothing happens
  when there is none.\<close>

fun update_found :: "('a \<Rightarrow> bool) \<Rightarrow> ('a \<Rightarrow> 'a) \<Rightarrow> 'a list \<Rightarrow> 'a list" where
  "update_found pred f [] = []"
| "update_found pred f (x # xs) = (if pred x then f x # xs else x # update_found pred f xs)"

definition SpinL_updateRPM :: "string \<Rightarrow> jsval \<Rightarrow> SpinLProcessor \<Rightarrow> SpinLProcessor" where
  "SpinL_updateRPM lid r p =
     p \<lparr> items := update_found (\<lambda>i. layerId i = lid)
            (\<lambda>item. let r' = clampRpm60 r
                     in item \<lparr> radPerSecond := rpmToRadPerSecond r', rpm := r', active := (0 < r') \<rparr>)
            (items p) \<rparr>"

definition SpinL_toggleSpin :: "string \<Rightarrow> SpinLProcessor \<Rightarrow> SpinLProcessor" where
  "SpinL_toggleSpin lid p =
     p \<lparr> items := update_found (\<lambda>i. layerId i = lid)
            (\<lambda>item. item \<lparr> active := \<not> active item \<rparr>) (items p) \<rparr>"

definition SpinL_setDirection :: "string \<Rightarrow> Direction \<Rightarrow> SpinLProcessor \<Rightarrow> SpinLProcessor" where
  "SpinL_setDirection lid d p =
     p \<lparr> items := update_found (\<lambda>i. layerId i = lid)
            (\<lambda>item. item \<lparr> direction := (if d = CCW then - 1 else 1) \<rparr>) (items p) \<rparr>"

definition SpinL_reset :: "SpinLProcessor \<times> store \<Rightarrow> SpinLProcessor \<times> store" where
  "SpinL_reset ps =
     (let p = fst ps; st = snd ps in
      (p \<lparr> elapsedTime := 0 \<rparr>,
       fold (\<lambda>item s. s (sprite item := (s (sprite item)) \<lparr> rotation := baseRotation item \<rparr>)) (items p) st))"

section \<open>Orbit\<close>

text \<open>
  The type of the source declares the field \<open>centerPixels\<close> as \<open>{cx, cy}\<close>, but
  the value stored in it, at creation and at every recomputation, is the object
  \<open>{x, y}\<close> that \<open>percentToStageCoords\<close> returns.  The reads
  \<open>item.centerPixels.cx\<close> and \<open>item.centerPixels.cy\<close> of \<open>updateOrbitItem\<close> and
  \<open>recomputeOrbitItem\<close> are therefore reads of properties that the object does
  not have.
\<close>

record OrbitItem =
  o_sprite :: handle
  o_layerId :: string
  o_cfg :: LayerConfig
  o_direction :: real
  o_radPerSecond :: real
  centerPercent :: "real \<times> real"
  centerPixels :: "real \<times> real"
  radius :: real
  basePhase :: jsnum
  orientPolicy :: OrientPolicy
  orientRadians :: real
  spinRpm :: real
  o_active :: bool

record OrbitConfig =
  oc_rpm :: real
  oc_direction :: Direction
  oc_centerPercent :: "real \<times> real"
  oc_phaseDegrees :: jsval
  oc_orientPolicy :: OrientPolicy
  oc_orientDegrees :: jsval
  oc_enabled :: bool

definition epsilon :: real where
  "epsilon = 1 / 1000000"

text \<open>The four blocks that push a candidate \<open>{t, x, y}\<close>, in the order of the source.\<close>

definition candidates ::
  "real \<Rightarrow> real \<Rightarrow> real \<Rightarrow> real \<Rightarrow> real \<Rightarrow> real \<Rightarrow> (real \<times> real \<times> real) list" where
  "candidates centerX centerY pointX pointY width height =
     (let dx = pointX - centerX; dy = pointY - centerY in
      (if \<bar>dx\<bar> > epsilon then
         (let t1 = (0 - centerX) / dx; y1 = centerY + t1 * dy;
              t2 = (width - centerX) / dx; y2 = centerY + t2 * dy
          in (if t1 > 0 \<and> y1 \<ge> - 1 \<and> y1 \<le> height + 1 then [(t1, 0, y1)] else []) @
             (if t2 > 0 \<and> y2 \<ge> - 1 \<and> y2 \<le> height + 1 then [(t2, width, y2)] else []))
       else []) @
      (if \<bar>dy\<bar> > epsilon then
         (let t3 = (0 - centerY) / dy; x3 = centerX + t3 * dx;
              t4 = (height - centerY) / dy; x4 = centerX + t4 * dx
          in (if t3 > 0 \<and> x3 \<ge> - 1 \<and> x3 \<le> width + 1 then [(t3, x3, 0)] else []) @
             (if t4 > 0 \<and> x4 \<ge> - 1 \<and> x4 \<le> width + 1 then [(t4, x4, height)] else []))
       else []))"

text \<open>\<open>candidates.sort((a, b) => a.t - b.t)\<close> is a stable sort by \<open>t\<close>, as
  \<open>sort_key\<close> is; the list is not empty where its head is taken.\<close>

definition projectToRectBorder ::
  "real \<Rightarrow> real \<Rightarrow> real \<Rightarrow> real \<Rightarrow> real \<Rightarrow> real \<Rightarrow> real \<times> real" where
  "projectToRectBorder centerX centerY pointX pointY width height =
     (if pointX \<ge> 0 \<and> pointX \<le> width \<and> pointY \<ge> 0 \<and> pointY \<le> height then (pointX, pointY)
      else if pointX - centerX = 0 \<and> pointY - centerY = 0 then (centerX, centerY)
      else (let cs = candidates centerX centerY pointX pointY width height in
            if cs = [] then (clamp pointX 0 width, clamp pointY 0 height)
            else (let first = hd (sort_key fst cs) in (fst (snd first), snd (snd first)))))"

definition createOrbitConfig :: "LayerConfig \<Rightarrow> OrbitConfig" where
  "createOrbitConfig cfg =
     (let r = clampRpm60 (orbitRPM cfg);
          d = (if orbitDir cfg = Some CCW then CCW else CW);
          center = (case orbitCenter cfg of None \<Rightarrow> (50, 50) | Some c \<Rightarrow> c);
          cp = (clamp (fst center) 0 100, clamp (snd center) 0 100)
      in \<lparr> oc_rpm = r,
           oc_direction = d,
           oc_centerPercent = cp,
           oc_phaseDegrees = orbitPhaseDeg cfg,
           oc_orientPolicy = (case orbitOrientPolicy cfg of None \<Rightarrow> PolicyNone | Some pol \<Rightarrow> pol),
           oc_orientDegrees = orbitOrientDeg cfg,
           oc_enabled = (0 < r) \<rparr>)"

text \<open>\<open>typeof v === 'number' && isFinite(v)\<close>, giving the number when it holds.\<close>

definition finiteNumber :: "jsval \<Rightarrow> real option" where
  "finiteNumber v = (case v of JNumber (Fin r) \<Rightarrow> Some r | _ \<Rightarrow> None)"

definition configuredCoords :: "LayerConfig \<Rightarrow> real \<times> real" where
  "configuredCoords cfg =
     percentToStageCoords (case position cfg of None \<Rightarrow> 0 | Some pos \<Rightarrow> fst pos)
                          (case position cfg of None \<Rightarrow> 0 | Some pos \<Rightarrow> snd pos)
                          STAGE_WIDTH STAGE_HEIGHT"

definition createOrbitItem :: "BuiltLayer \<Rightarrow> (handle \<rightharpoonup> real) \<Rightarrow> OrbitItem option" where
  "createOrbitItem layer spinRpmBySprite =
     (let orbitConfig = createOrbitConfig (layer_cfg layer) in
      if \<not> oc_enabled orbitConfig then None
      else
       (let dir = (if oc_direction orbitConfig = CCW then - 1 else 1);
            w = STAGE_WIDTH;
            h = STAGE_HEIGHT;
            centerCoords = percentToStageCoords (fst (oc_centerPercent orbitConfig))
                                                (snd (oc_centerPercent orbitConfig)) w h;
            spriteCoords = configuredCoords (layer_cfg layer);
            startPoint = projectToRectBorder (fst centerCoords) (snd centerCoords)
                                             (fst spriteCoords) (snd spriteCoords) w h;
            rad = hypot (fst startPoint - fst centerCoords) (snd startPoint - snd centerCoords)
        in if rad \<le> 0 then None
           else
            (let phase = (case finiteNumber (oc_phaseDegrees orbitConfig) of
                            Some phaseDegrees \<Rightarrow> toRad (normDeg phaseDegrees)
                          | None \<Rightarrow> atan2 (snd startPoint - snd centerCoords)
                                           (fst startPoint - fst centerCoords));
                 orientDegrees = (case finiteNumber (oc_orientDegrees orbitConfig) of
                                    Some d \<Rightarrow> d | None \<Rightarrow> 0);
                 rps = (oc_rpm orbitConfig * pi) / 30;
                 snapshot = (case spinRpmBySprite (layer_sprite layer) of
                               None \<Rightarrow> 0 | Some r \<Rightarrow> r)
             in Some \<lparr> o_sprite = layer_sprite layer,
                       o_layerId = layer_id layer,
                       o_cfg = layer_cfg layer,
                       o_direction = dir,
                       o_radPerSecond = rps,
                       centerPercent = oc_centerPercent orbitConfig,
                       centerPixels = centerCoords,
                       radius = rad,
                       basePhase = Fin phase,
                       orientPolicy = oc_orientPolicy orbitConfig,
                       orientRadians = toRad (normDeg orientDegrees),
                       spinRpm = snapshot,
                       o_active = True \<rparr>)))"

text \<open>The angle of the per-frame formula.\<close>

definition orbitAngle :: "OrbitItem \<Rightarrow> real \<Rightarrow> jsnum" where
  "orbitAngle item elapsed =
     js_add (basePhase item) (Fin (o_direction item * o_radPerSecond item * elapsed))"

definition updateOrbitItem :: "OrbitItem \<Rightarrow> real \<Rightarrow> store \<Rightarrow> store" where
  "updateOrbitItem item elapsed st =
     (if \<not> o_active item \<or> radius item \<le> 0 then st
      else
       (let angle = orbitAngle item elapsed;
            s1 = (st (o_sprite item))
                   \<lparr> pos_x := js_add (numProp (centerPixels item) ''cx'')
                                     (js_mul (Fin (radius item)) (js_cos angle)),
                     pos_y := js_add (numProp (centerPixels item) ''cy'')
                                     (js_mul (Fin (radius item)) (js_sin angle)) \<rparr>;
            s2 = (if orientPolicy item = PolicyOverride
                     \<or> (orientPolicy item = PolicyAuto \<and> spinRpm item \<le> 0)
                  then s1 \<lparr> rotation := js_add angle (Fin (orientRadians item)) \<rparr>
                  else s1)
        in st (o_sprite item := s2)))"

text \<open>\<open>recomputeOrbitItem\<close> mutates the item and its drawable: both are returned.\<close>

definition recomputeOrbitItem :: "OrbitItem \<Rightarrow> real \<Rightarrow> store \<Rightarrow> OrbitItem \<times> store" where
  "recomputeOrbitItem item elapsed st =
     (let w = STAGE_WIDTH;
          h = STAGE_HEIGHT;
          centerCoords = percentToStageCoords (fst (centerPercent item)) (snd (centerPercent item)) w h;
          oldAngle = js_atan2 (js_sub (pos_y (st (o_sprite item))) (numProp (centerPixels item) ''cy''))
                              (js_sub (pos_x (st (o_sprite item))) (numProp (centerPixels item) ''cx''));
          spriteCoords = configuredCoords (o_cfg item);
          startPoint = projectToRectBorder (fst centerCoords) (snd centerCoords)
                                           (fst spriteCoords) (snd spriteCoords) w h;
          newRadius = hypot (fst startPoint - fst centerCoords) (snd startPoint - snd centerCoords);
          item1 = item \<lparr> centerPixels := centerCoords, radius := newRadius \<rparr>
      in if newRadius > 0 then
           (item1 \<lparr> basePhase := js_sub oldAngle (Fin (o_direction item * o_radPerSecond item * elapsed)) \<rparr>,
            st (o_sprite item := (st (o_sprite item))
                 \<lparr> pos_x := js_add (Fin (fst centerCoords)) (js_mul (Fin newRadius) (js_cos oldAngle)),
                   pos_y := js_add (Fin (snd centerCoords)) (js_mul (Fin newRadius) (js_sin oldAngle)) \<rparr>))
         else (item1, st))"

fun buildOrbitItems :: "BuiltLayer list \<Rightarrow> (handle \<rightharpoonup> real) \<Rightarrow> OrbitItem list" where
  "buildOrbitItems [] spinRpmBySprite = []"
| "buildOrbitItems (layer # layers) spinRpmBySprite =
     (case createOrbitItem layer spinRpmBySprite of
        None \<Rightarrow> buildOrbitItems layers spinRpmBySprite
      | Some item \<Rightarrow> item # buildOrbitItems layers spinRpmBySprite)"

record OrbitProcessor =
  op_items :: "OrbitItem list"
  op_elapsedTime :: real

text \<open>\<open>init\<close> builds the items from a map that it creates empty.\<close>

definition Orbit_init :: "BuiltLayer list \<Rightarrow> OrbitProcessor" where
  "Orbit_init layers =
     (let spinRpmBySprite = Map.empty
      in \<lparr> op_items = buildOrbitItems layers spinRpmBySprite, op_elapsedTime = 0 \<rparr>)"

fun recomputeAll :: "OrbitItem list \<Rightarrow> real \<Rightarrow> store \<Rightarrow> OrbitItem list \<times> store" where
  "recomputeAll [] elapsed st = ([], st)"
| "recomputeAll (item # rest) elapsed st =
     (let r = recomputeOrbitItem item elapsed st;
          rs = recomputeAll rest elapsed (snd r)
      in (fst r # fst rs, snd rs))"

definition Orbit_onResize :: "OrbitProcessor \<times> store \<Rightarrow> OrbitProcessor \<times> store" where
  "Orbit_onResize ps =
     (let p = fst ps; r = recomputeAll (op_items p) (op_elapsedTime p) (snd ps)
      in (p \<lparr> op_items := fst r \<rparr>, snd r))"

fun tickOrbitItems :: "OrbitItem list \<Rightarrow> real \<Rightarrow> store \<Rightarrow> store" where
  "tickOrbitItems [] elapsed st = st"
| "tickOrbitItems (item # rest) elapsed st = tickOrbitItems rest elapsed (updateOrbitItem item elapsed st)"

definition Orbit_tick :: "real \<Rightarrow> OrbitProcessor \<times> store \<Rightarrow> OrbitProcessor \<times> store" where
  "Orbit_tick deltaTime ps =
     (let p = fst ps; st = snd ps in
      if op_items p = [] then (p, st)
      else (let p' = p \<lparr> op_elapsedTime := op_elapsedTime p + deltaTime \<rparr>
            in (p', tickOrbitItems (op_items p') (op_elapsedTime p') st)))"

definition Orbit_getOrbitItem :: "OrbitProcessor \<Rightarrow> string \<Rightarrow> OrbitItem option" where
  "Orbit_getOrbitItem p lid = find (\<lambda>item. o_layerId item = lid) (op_items p)"

definition Orbit_updateRPM :: "string \<Rightarrow> jsval \<Rightarrow> OrbitProcessor \<Rightarrow> OrbitProcessor" where
  "Orbit_updateRPM lid r p =
     p \<lparr> op_items := update_found (\<lambda>i. o_layerId i = lid)
            (\<lambda>item. let clampedRpm = clampRpm60 r
                     in item \<lparr> o_radPerSecond := (clampedRpm * pi) / 30, o_active := (0 < clampedRpm) \<rparr>)
            (op_items p) \<rparr>"

definition Orbit_setDirection :: "string \<Rightarrow> Direction \<Rightarrow> OrbitProcessor \<Rightarrow> OrbitProcessor" where
  "Orbit_setDirection lid d p =
     p \<lparr> op_items := update_found (\<lambda>i. o_layerId i = lid)
            (\<lambda>item. item \<lparr> o_direction := (if d = CCW then - 1 else 1) \<rparr>) (op_items p) \<rparr>"

text \<open>\<open>updateCenter\<close> changes the item found and, through \<open>recomputeOrbitItem\<close>, its
  drawable; with no item of that id it does neither.\<close>

fun updateCenter_items ::
  "string \<Rightarrow> real \<times> real \<Rightarrow> real \<Rightarrow> OrbitItem list \<Rightarrow> store \<Rightarrow> OrbitItem list \<times> store" where
  "updateCenter_items lid c elapsed [] st = ([], st)"
| "updateCenter_items lid c elapsed (item # rest) st =
     (if o_layerId item = lid then
        (let r = recomputeOrbitItem
                   (item \<lparr> centerPercent := (clamp (fst c) 0 100, clamp (snd c) 0 100) \<rparr>) elapsed st
         in (fst r # rest, snd r))
      else (let rs = updateCenter_items lid c elapsed rest st in (item # fst rs, snd rs)))"

definition Orbit_updateCenter ::
  "string \<Rightarrow> real \<times> real \<Rightarrow> OrbitProcessor \<times> store \<Rightarrow> OrbitProcessor \<times> store" where
  "Orbit_updateCenter lid c ps =
     (let p = fst ps; r = updateCenter_items lid c (op_elapsedTime p) (op_items p) (snd ps)
      in (p \<lparr> op_items := fst r \<rparr>, snd r))"

section \<open>Effect\<close>

datatype EffectSpec =
    FadeSpec real real real bool Easing
  | PulseSpec PulseProperty real real real
  | TiltSpec TiltMode TiltAxis real "real option"
  | GlowSpec real real real "real option"
  | BloomSpec real "real option"
  | DistortSpec real real
  | ShockwaveSpec real real bool

definition or_default :: "real option \<Rightarrow> real \<Rightarrow> real" where
  "or_default v d = (case v of None \<Rightarrow> d | Some r \<Rightarrow> r)"







definition easeSineInOut :: "real \<Rightarrow> real" where
  "easeSineInOut t = 0.5 - 0.5 * cos (pi * 2 * t)"

text \<open>The phase of a fade: the lines shared by the fade branch of the tick and
  by \<open>EffectUtils.calculateFadeProgress\<close>, for a period \<open>T > 0\<close> in seconds.\<close>

definition fadePhase :: "real \<Rightarrow> real \<Rightarrow> bool \<Rightarrow> real" where
  "fadePhase elapsed T loop =
     (let phase = jsrem elapsed T / T in
      if loop then (if phase > 0.5 then 1 - (phase - 0.5) * 2 else phase * 2)
      else phase)"

definition calculateFadeProgress :: "real \<Rightarrow> real \<Rightarrow> bool \<Rightarrow> real" where
  "calculateFadeProgress elapsed durationMs loop =
     (let T = durationMs / 1000 in
      if T \<le> 0 then 1 else fadePhase elapsed T loop)"

definition calculatePulseIntensity :: "real \<Rightarrow> real \<Rightarrow> real \<Rightarrow> real" where
  "calculatePulseIntensity elapsed periodMs phaseDeg =
     (let T = periodMs / 1000 in
      if T \<le> 0 then 1
      else sin (((2 * pi) / T) * elapsed + (phaseDeg * pi) / 180))"

text \<open>One round of the loop over the specs of an item: the accumulator is
  \<open>(alpha, scaleMul, tiltRad)\<close>; the pointer is the tracked \<open>(pointerX, pointerY)\<close>.\<close>

fun applySpec :: "real \<Rightarrow> real \<times> real \<Rightarrow> EffectSpec \<Rightarrow> real \<times> real \<times> real \<Rightarrow> real \<times> real \<times> real" where
  "applySpec elapsed ptr (FadeSpec from to durationMs loop easing) (a, scaleMul, tiltRad) =
     (let T = durationMs / 1000 in
      if T \<le> 0 then (a, scaleMul, tiltRad)
      else (let phase = fadePhase elapsed T loop;
                t = (if easing = SineInOut then easeSineInOut phase else phase)
            in (from + (to - from) * t, scaleMul, tiltRad)))"
| "applySpec elapsed ptr (PulseSpec property amp periodMs phaseDeg) (a, scaleMul, tiltRad) =
     (let T = periodMs / 1000 in
      if T \<le> 0 then (a, scaleMul, tiltRad)
      else (let omega = (2 * pi) / T;
                phase = phaseDeg * pi / 180;
                s = 1 + amp * sin (omega * elapsed + phase)
            in if property = PropScale then (a, scaleMul * s, tiltRad)
               else (a * max 0 (min 1 s), scaleMul, tiltRad)))"
| "applySpec elapsed ptr (TiltSpec mode axis maxDeg periodMs) (a, scaleMul, tiltRad) =
     (let axisCount = (if axis = AxisBoth then 2 else 1) in
      if mode = ModeTime then
        (let T = or_default periodMs 4000 / 1000 in
         if T > 0 then (a, scaleMul, tiltRad + ((maxDeg * sin ((2 * pi / T) * elapsed)) * pi) / 180)
         else (a, scaleMul, tiltRad))
      else
        (let dx = (fst ptr - 0.5) * 2;
             dy = (snd ptr - 0.5) * 2;
             v = (if axis = AxisX then dy else if axis = AxisY then - dx else (dy + - dx) / axisCount);
             deg = max (- maxDeg) (min maxDeg (v * maxDeg))
         in (a, scaleMul, tiltRad + (deg * pi) / 180)))"
| "applySpec elapsed ptr _ acc = acc"





text \<open>
  \<open>newSprite\<close> is the drawable that the constructor of the rendering library
  gives; the scene builder makes the drawables of the layers with it.  An aura
  has a drawable of its own, referred to by the aura only, so it is kept in the
  aura.
\<close>

definition newSprite :: Sprite where
  "newSprite = \<lparr> pos_x = Fin 0, pos_y = Fin 0, rotation = Fin 0, alpha = 1, scale_x = 1, scale_y = 1,
                 tint = 16777215, blendMode = 0 \<rparr>"



















section \<open>Frames and scenes\<close>

text \<open>The frame driver calls \<open>tick\<close> once per frame with the delta of that frame.\<close>

definition SpinL_ticks :: "real list \<Rightarrow> SpinLProcessor \<times> store \<Rightarrow> SpinLProcessor \<times> store" where
  "SpinL_ticks deltas ps = fold SpinL_tick deltas ps"

definition Orbit_ticks :: "real list \<Rightarrow> OrbitProcessor \<times> store \<Rightarrow> OrbitProcessor \<times> store" where
  "Orbit_ticks deltas ps = fold Orbit_tick deltas ps"

text \<open>\<open>ConfigUtils.createDefaultLayer\<close>: a layer at the middle of the stage with no
  animation; the scenes of the examples below are variations of it.\<close>

definition createDefaultLayer :: "string \<Rightarrow> LayerConfig" where
  "createDefaultLayer i =
     \<lparr> cfg_id = i, position = Some (50, 50), scale_pct = Some 100, angleDeg = Some 0,
       spinRPM = JUndefined, spinDir = None, orbitRPM = JUndefined, orbitDir = None,
       orbitCenter = None, orbitPhaseDeg = JUndefined, orbitOrientPolicy = None,
       orbitOrientDeg = JUndefined, effects = [] \<rparr>"

text \<open>A built layer with drawable \<open>h\<close>, and a store of fresh drawables.\<close>

definition builtLayer :: "handle \<Rightarrow> LayerConfig \<Rightarrow> BuiltLayer" where
  "builtLayer h cfg = \<lparr> layer_id = cfg_id cfg, layer_sprite = h, layer_cfg = cfg \<rparr>"

definition freshStore :: store where
  "freshStore = (\<lambda>h. newSprite)"

section \<open>The border projection as the specification describes it\<close>

text \<open>
  The reference algorithm in the words of the specification: a point inside the
  rectangle is returned unchanged; otherwise the ray from the center through the
  point is intersected with all four edges (an edge parallel to the ray has no
  intersection), the intersections with positive parameter whose other
  coordinate is within the edge's bounds, with a tolerance of one unit, are
  kept, and the one with the smallest parameter is selected; with no valid
  intersection the point is clamped into the rectangle.
\<close>

definition spec_intersections ::
  "real \<Rightarrow> real \<Rightarrow> real \<Rightarrow> real \<Rightarrow> real \<Rightarrow> real \<Rightarrow> (real \<times> real \<times> real) list" where
  "spec_intersections cx cy px py w h =
     (let dx = px - cx; dy = py - cy in
      (if dx \<noteq> 0 then
         filter (\<lambda>c. fst c > 0 \<and> - 1 \<le> snd (snd c) \<and> snd (snd c) \<le> h + 1)
           [((0 - cx) / dx, 0, cy + ((0 - cx) / dx) * dy),
            ((w - cx) / dx, w, cy + ((w - cx) / dx) * dy)]
       else []) @
      (if dy \<noteq> 0 then
         filter (\<lambda>c. fst c > 0 \<and> - 1 \<le> fst (snd c) \<and> fst (snd c) \<le> w + 1)
           [((0 - cy) / dy, cx + ((0 - cy) / dy) * dx, 0),
            ((h - cy) / dy, cx + ((h - cy) / dy) * dx, h)]
       else []))"

definition spec_projectToRectBorder ::
  "real \<Rightarrow> real \<Rightarrow> real \<Rightarrow> real \<Rightarrow> real \<Rightarrow> real \<Rightarrow> real \<times> real" where
  "spec_projectToRectBorder cx cy px py w h =
     (if 0 \<le> px \<and> px \<le> w \<and> 0 \<le> py \<and> py \<le> h then (px, py)
      else (let hits = spec_intersections cx cy px py w h in
            if hits = [] then (clamp px 0 w, clamp py 0 h)
            else snd (arg_min_list fst hits)))"

section \<open>Properties\<close>

subsection \<open>RPM clamping\<close>

lemma clampRpm60_Fin: "clampRpm60 (JNumber (Fin r)) = (if r \<le> 0 then 0 else min 60 r)"
  by (simp add: clampRpm60_def clampNumber_def valueNumber_def)

lemma clampRpm60_range: "0 \<le> clampRpm60 v \<and> clampRpm60 v \<le> 60"
  by (cases "valueNumber v") (auto simp: clampRpm60_def clampNumber_def)

lemma clampRpm60_zero:
  "\<not> isFinite (valueNumber v) \<or> le_zero (valueNumber v) \<Longrightarrow> clampRpm60 v = 0"
  by (auto simp: clampRpm60_def clampNumber_def)

lemma clampRpm60_unknown_Converts: "clampRpm60_unknown (Converts v) = Inr (clampRpm60 v)"
  by (simp add: clampRpm60_unknown_def coerceNumber_def clampRpm60_def)

lemma clampRpm60_unknown_Unconvertible: "clampRpm60_unknown Unconvertible = Inl TypeError"
  by (simp add: clampRpm60_unknown_def coerceNumber_def)

text \<open>
  Claim C7, as amended.  For every input whose conversion to a number does not
  throw, \<open>clampRpm60\<close> returns a number, and this number lies in the closed
  interval from 0 to 60; it is 0 whenever the input, as a number, is not finite
  or is at most 0; and on numbers between 0 and 60 the function is the identity,
  hence monotonic there.  In particular it returns 0 for \<open>null\<close>, \<open>undefined\<close>,
  \<open>NaN\<close> and both infinities, and 60 for a finite number above 60.  For an input
  that \<open>Number(v)\<close> cannot convert, such as a Symbol, \<open>clampRpm60\<close> throws a
  \<open>TypeError\<close>.
\<close>

theorem clampRpm60_convertible:
  "clampRpm60_unknown (Converts v) = Inr (clampRpm60 v)
   \<and> 0 \<le> clampRpm60 v \<and> clampRpm60 v \<le> 60
   \<and> (\<not> isFinite (valueNumber v) \<or> le_zero (valueNumber v) \<longrightarrow>
        clampRpm60_unknown (Converts v) = Inr 0)
   \<and> (0 \<le> a \<and> a \<le> b \<and> b \<le> 60 \<longrightarrow>
        clampRpm60_unknown (Converts (JNumber (Fin a))) = Inr a
        \<and> clampRpm60_unknown (Converts (JNumber (Fin b))) = Inr b
        \<and> clampRpm60 (JNumber (Fin a)) \<le> clampRpm60 (JNumber (Fin b)))
   \<and> (60 < a \<longrightarrow> clampRpm60_unknown (Converts (JNumber (Fin a))) = Inr 60)
   \<and> clampRpm60_unknown (Converts JNull) = Inr 0
   \<and> clampRpm60_unknown (Converts JUndefined) = Inr 0
   \<and> clampRpm60_unknown (Converts (JNumber NaN)) = Inr 0
   \<and> clampRpm60_unknown (Converts (JNumber PosInf)) = Inr 0
   \<and> clampRpm60_unknown (Converts (JNumber NegInf)) = Inr 0
   \<and> clampRpm60_unknown Unconvertible = Inl TypeError"
proof -
  have m: "0 \<le> a \<and> a \<le> b \<and> b \<le> 60 \<longrightarrow>
        clampRpm60_unknown (Converts (JNumber (Fin a))) = Inr a
        \<and> clampRpm60_unknown (Converts (JNumber (Fin b))) = Inr b
        \<and> clampRpm60 (JNumber (Fin a)) \<le> clampRpm60 (JNumber (Fin b))"
    by (auto simp: clampRpm60_unknown_Converts clampRpm60_Fin)
  have z: "\<not> isFinite (valueNumber v) \<or> le_zero (valueNumber v) \<longrightarrow>
        clampRpm60_unknown (Converts v) = Inr 0"
    using clampRpm60_zero [of v] by (auto simp: clampRpm60_unknown_Converts)
  have u: "60 < a \<longrightarrow> clampRpm60_unknown (Converts (JNumber (Fin a))) = Inr 60"
    by (simp add: clampRpm60_unknown_Converts clampRpm60_Fin)
  have k: "clampRpm60_unknown (Converts JNull) = Inr 0"
    "clampRpm60_unknown (Converts JUndefined) = Inr 0"
    "clampRpm60_unknown (Converts (JNumber NaN)) = Inr 0"
    "clampRpm60_unknown (Converts (JNumber PosInf)) = Inr 0"
    "clampRpm60_unknown (Converts (JNumber NegInf)) = Inr 0"
    by (simp_all add: clampRpm60_unknown_Converts clampRpm60_def clampNumber_def valueNumber_def)
  from m z u k clampRpm60_range [of v] clampRpm60_unknown_Converts [of v]
    clampRpm60_unknown_Unconvertible
  show ?thesis by blast
qed

theorem clampRpm60_convertible_witness:
  "\<not> isFinite (valueNumber (JNumber NaN))
   \<and> (0::real) \<le> 15 \<and> (15::real) \<le> 45 \<and> (45::real) \<le> 60
   \<and> clampRpm60_unknown (Converts (JNumber NaN)) = Inr 0
   \<and> clampRpm60_unknown (Converts (JNumber (Fin 15))) = Inr 15
   \<and> clampRpm60_unknown (Converts (JNumber (Fin 45))) = Inr 45
   \<and> clampRpm60 (JNumber (Fin 15)) \<le> clampRpm60 (JNumber (Fin 45))"
  using clampRpm60_convertible [of "JNumber NaN" 15 45]
  by (simp add: valueNumber_def clampRpm60_def clampNumber_def)

text \<open>
  Claim C7 as stated fails for an input that \<open>Number(v)\<close> cannot convert, such
  as a Symbol: \<open>clampRpm60\<close> throws a \<open>TypeError\<close>, so it returns no number, in
  the interval from 0 to 60 or outside it.
\<close>

theorem clampRpm60_counterexample:
  "clampRpm60_unknown Unconvertible = Inl TypeError
   \<and> (\<forall>r. clampRpm60_unknown Unconvertible \<noteq> Inr r)"
  by (simp add: clampRpm60_unknown_def coerceNumber_def)

subsection \<open>Fade\<close>

lemma jsrem_small: "0 \<le> e \<Longrightarrow> e < T \<Longrightarrow> jsrem e T = e"
proof -
  assume a: "0 \<le> e" "e < T"
  then have "0 \<le> e / T" "e / T < 1" by auto
  then have "\<lfloor>e / T\<rfloor> = 0" by linarith
  with a show ?thesis by (simp add: jsrem_def trunc_def)
qed

lemma jsrem_period: "0 < T \<Longrightarrow> 0 \<le> e \<Longrightarrow> jsrem (e + T) T = jsrem e T"
proof -
  assume a: "0 < T" "0 \<le> e"
  then have q: "(e + T) / T = e / T + 1" by (simp add: field_simps)
  from a have "0 \<le> e / T" by simp
  with a q show ?thesis
    by (simp add: jsrem_def trunc_def algebra_simps)
qed

lemma fadePhase_period: "0 < T \<Longrightarrow> 0 \<le> e \<Longrightarrow> fadePhase (e + T) T loop = fadePhase e T loop"
  by (simp add: fadePhase_def jsrem_period)

lemma fadePhase_unlooped: "fadePhase e T False = jsrem e T / T"
  by (simp add: fadePhase_def)

lemma fadePhase_rising: "0 \<le> e \<Longrightarrow> e \<le> T / 2 \<Longrightarrow> 0 < T \<Longrightarrow> fadePhase e T True = 2 * e / T"
proof -
  assume a: "0 \<le> e" "e \<le> T / 2" "0 < T"
  then have "jsrem e T = e" by (intro jsrem_small) auto
  moreover from a have "e / T \<le> 1 / 2" by (simp add: field_simps)
  ultimately show ?thesis by (simp add: fadePhase_def)
qed

lemma fadePhase_falling: "T / 2 < e \<Longrightarrow> e < T \<Longrightarrow> fadePhase e T True = 2 - 2 * e / T"
proof -
  assume a: "T / 2 < e" "e < T"
  then have T: "0 < T" by linarith
  with a have "jsrem e T = e" by (intro jsrem_small) auto
  moreover from a T have "e / T > 1 / 2" by (simp add: field_simps)
  ultimately show ?thesis by (simp add: fadePhase_def)
qed

lemma fade_branch:
  "0 < d \<Longrightarrow> applySpec e ptr (FadeSpec from to d loop easing) (a, sm, tr)
     = (from + (to - from)
               * (if easing = SineInOut then easeSineInOut (calculateFadeProgress e d loop)
                  else calculateFadeProgress e d loop), sm, tr)"
  by (simp add: calculateFadeProgress_def Let_def)

lemma fade_branch_skipped:
  "d \<le> 0 \<Longrightarrow> applySpec e ptr (FadeSpec from to d loop easing) (a, sm, tr) = (a, sm, tr)"
  by (simp add: Let_def)

text \<open>
  Claim C5.  For a duration \<open>d > 0\<close> (in ms) and an elapsed time \<open>e \<ge> 0\<close> (in s),
  the phase of a fade is computed from \<open>e\<close> modulo the duration whatever the loop
  flag is: the unlooped phase is \<open>(e mod T) / T\<close> with \<open>T = d / 1000\<close>, and with
  either flag the phase at \<open>e + T\<close> is the phase at \<open>e\<close>, so an unlooped fade starts
  again every period.  With \<open>loop = true\<close> the phase rises as \<open>2e/T\<close> up to the
  midpoint, where it is 1, and falls as \<open>2 - 2e/T\<close> after it.  The fade branch of
  the tick computes the same phase and interpolates between \<open>from\<close> and \<open>to\<close>
  with it, whatever the easing is: with the phase itself for \<open>linear\<close>, and with
  \<open>0.5 - 0.5 * cos (2 * pi * phase)\<close> for \<open>sineInOut\<close>; a fade of a duration that
  is not positive is skipped.  With duration 1000 ms and \<open>loop = true\<close> the phase
  at 0 s, 0.5 s and 1 s is 0, 1 and 0; with \<open>from = 0\<close>, \<open>to = 1\<close> the alpha of
  the tick with linear easing at these times is 0, 1 and 0, and with
  \<open>sineInOut\<close> easing it is 1 at 0.25 s, where the phase is one half.
\<close>

theorem fade_periodic_pingpong:
  "(0 < d \<and> 0 \<le> e \<longrightarrow>
      calculateFadeProgress e d False = jsrem e (d / 1000) / (d / 1000)
    \<and> calculateFadeProgress (e + d / 1000) d loop = calculateFadeProgress e d loop
    \<and> (e \<le> d / 2000 \<longrightarrow> calculateFadeProgress e d True = 2 * e / (d / 1000))
    \<and> (d / 2000 < e \<and> e < d / 1000 \<longrightarrow> calculateFadeProgress e d True = 2 - 2 * e / (d / 1000))
    \<and> calculateFadeProgress (d / 2000) d True = 1
    \<and> applySpec e ptr (FadeSpec from to d loop easing) (a, sm, tr)
        = (from + (to - from)
                  * (if easing = SineInOut then easeSineInOut (calculateFadeProgress e d loop)
                     else calculateFadeProgress e d loop), sm, tr)
    \<and> applySpec (e + d / 1000) ptr (FadeSpec from to d loop easing) (a, sm, tr)
        = applySpec e ptr (FadeSpec from to d loop easing) (a, sm, tr))
   \<and> (d \<le> 0 \<longrightarrow> applySpec e ptr (FadeSpec from to d loop easing) (a, sm, tr) = (a, sm, tr))
   \<and> calculateFadeProgress 0 1000 True = 0
   \<and> calculateFadeProgress 0.5 1000 True = 1
   \<and> calculateFadeProgress 1 1000 True = 0
   \<and> applySpec 0 ptr (FadeSpec 0 1 1000 True Linear) (a, sm, tr) = (0, sm, tr)
   \<and> applySpec 0.5 ptr (FadeSpec 0 1 1000 True Linear) (a, sm, tr) = (1, sm, tr)
   \<and> applySpec 1 ptr (FadeSpec 0 1 1000 True Linear) (a, sm, tr) = (0, sm, tr)
   \<and> applySpec 0.25 ptr (FadeSpec 0 1 1000 True SineInOut) (a, sm, tr) = (1, sm, tr)"
proof -
  have c0: "calculateFadeProgress 0 1000 True = 0"
    and c1: "calculateFadeProgress 0.5 1000 True = 1"
    and c2: "calculateFadeProgress 1 1000 True = 0"
    and c4: "calculateFadeProgress (1 / 4) 1000 True = 1 / 2"
    by (simp_all add: calculateFadeProgress_def fadePhase_def jsrem_def trunc_def)
  have c3: "applySpec 0.5 ptr (FadeSpec 0 1 1000 True Linear) (a, sm, tr) = (1, sm, tr)"
    using fade_branch [of 1000 "0.5" ptr 0 1 True Linear a sm tr] c1 by simp
  have c5: "applySpec 0 ptr (FadeSpec 0 1 1000 True Linear) (a, sm, tr) = (0, sm, tr)"
    using fade_branch [of 1000 0 ptr 0 1 True Linear a sm tr] c0 by simp
  have c6: "applySpec 1 ptr (FadeSpec 0 1 1000 True Linear) (a, sm, tr) = (0, sm, tr)"
    using fade_branch [of 1000 1 ptr 0 1 True Linear a sm tr] c2 by simp
  have s: "easeSineInOut (1 / 2) = 1"
    by (simp add: easeSineInOut_def)
  have c7: "applySpec 0.25 ptr (FadeSpec 0 1 1000 True SineInOut) (a, sm, tr) = (1, sm, tr)"
    using fade_branch [of 1000 "0.25" ptr 0 1 True SineInOut a sm tr] by (simp add: c4 s)
  have skip: "d \<le> 0 \<longrightarrow> applySpec e ptr (FadeSpec from to d loop easing) (a, sm, tr) = (a, sm, tr)"
    using fade_branch_skipped [of d e ptr "from" to loop easing a sm tr] by blast
  have gen: "calculateFadeProgress e d False = jsrem e (d / 1000) / (d / 1000)
    \<and> calculateFadeProgress (e + d / 1000) d loop = calculateFadeProgress e d loop
    \<and> (e \<le> d / 2000 \<longrightarrow> calculateFadeProgress e d True = 2 * e / (d / 1000))
    \<and> (d / 2000 < e \<and> e < d / 1000 \<longrightarrow> calculateFadeProgress e d True = 2 - 2 * e / (d / 1000))
    \<and> calculateFadeProgress (d / 2000) d True = 1
    \<and> applySpec e ptr (FadeSpec from to d loop easing) (a, sm, tr)
        = (from + (to - from)
                  * (if easing = SineInOut then easeSineInOut (calculateFadeProgress e d loop)
                     else calculateFadeProgress e d loop), sm, tr)
    \<and> applySpec (e + d / 1000) ptr (FadeSpec from to d loop easing) (a, sm, tr)
        = applySpec e ptr (FadeSpec from to d loop easing) (a, sm, tr)"
    if d: "0 < d" and e: "0 \<le> e"
  proof -
    let ?T = "d / 1000"
    from d have T: "0 < ?T" by simp
    have p1: "calculateFadeProgress e d False = jsrem e ?T / ?T"
      using T by (simp add: calculateFadeProgress_def fadePhase_unlooped)
    have p2: "calculateFadeProgress (e + ?T) d loop = calculateFadeProgress e d loop"
      using T e fadePhase_period [of ?T e loop] by (simp add: calculateFadeProgress_def)
    have p3: "calculateFadeProgress e d True = 2 * e / ?T" if "e \<le> d / 2000"
      using T e that fadePhase_rising [of e ?T] by (simp add: calculateFadeProgress_def)
    have p4: "calculateFadeProgress e d True = 2 - 2 * e / ?T" if "d / 2000 < e" "e < ?T"
      using T that fadePhase_falling [of ?T e] by (simp add: calculateFadeProgress_def)
    have p5: "calculateFadeProgress (d / 2000) d True = 1"
      using T d fadePhase_rising [of "d / 2000" ?T] by (simp add: calculateFadeProgress_def)
    have p6: "applySpec (e + ?T) ptr (FadeSpec from to d loop easing) (a, sm, tr)
        = applySpec e ptr (FadeSpec from to d loop easing) (a, sm, tr)"
      by (simp only: fade_branch [OF d] p2)
    show ?thesis
      using p1 p2 p3 p4 p5 p6 fade_branch [OF d] by blast
  qed
  from gen skip c0 c1 c2 c3 c5 c6 c7 show ?thesis by blast
qed

theorem fade_periodic_pingpong_witness:
  "(0::real) < 1000 \<and> (0::real) \<le> 0.25 \<and> (0.25::real) \<le> 1000 / 2000
   \<and> (1000::real) / 2000 < 0.75 \<and> (0.75::real) < 1000 / 1000
   \<and> calculateFadeProgress 0.25 1000 False = 0.25
   \<and> calculateFadeProgress 1.25 1000 False = 0.25
   \<and> calculateFadeProgress 0.25 1000 True = 0.5
   \<and> calculateFadeProgress 0.75 1000 True = 0.5
   \<and> calculateFadeProgress 0.5 1000 True = 1
   \<and> calculateFadeProgress 1 1000 True = 0
   \<and> applySpec 0.75 (0.5, 0.5) (FadeSpec 0 1 1000 True SineInOut) (1, 1, 0) = (1, 1, 0)
   \<and> applySpec 0.75 (0.5, 0.5) (FadeSpec 0.25 1 1000 True Linear) (1, 1, 0) = (0.625, 1, 0)"
proof -
  have j: "jsrem 0.25 (1000 / 1000) = 0.25"
    by (simp add: jsrem_def trunc_def)
  have s: "easeSineInOut (1 / 2) = 1"
    by (simp add: easeSineInOut_def)
  have c: "calculateFadeProgress (3 / 4) 1000 True = 1 / 2"
    by (simp add: calculateFadeProgress_def fadePhase_def jsrem_def trunc_def)
  have "calculateFadeProgress (0.25 + 1000 / 1000) 1000 False = calculateFadeProgress 0.25 1000 False"
    using fade_periodic_pingpong [of 1000 "0.25" False "(0.5, 0.5)" 0 1 Linear 1 1 0] by simp
  then have "calculateFadeProgress 1.25 1000 False = calculateFadeProgress 0.25 1000 False"
    by simp
  with j show ?thesis
    using fade_periodic_pingpong [of 1000 "0.25" False "(0.5, 0.5)" 0 1 Linear 1 1 0]
      fade_periodic_pingpong [of 1000 "0.25" True "(0.5, 0.5)" 0 1 Linear 1 1 0]
      fade_periodic_pingpong [of 1000 "0.75" True "(0.5, 0.5)" 0 1 SineInOut 1 1 0]
      fade_periodic_pingpong [of 1000 "0.75" True "(0.5, 0.5)" "0.25" 1 Linear 1 1 0]
    by (simp add: c s)
qed

subsection \<open>Spin\<close>

lemma updateSpinItem_other: "h \<noteq> sprite item \<Longrightarrow> updateSpinItem item e st h = st h"
  by (simp add: updateSpinItem_def)

lemma tickSpinSystem_other:
  "h \<notin> sprite ` set xs \<Longrightarrow> tickSpinSystem xs e st h = st h"
  by (induction xs arbitrary: st) (auto simp: updateSpinItem_other)

lemma updateSpinItem_cong:
  "st' (sprite item) = st (sprite item) \<Longrightarrow>
   updateSpinItem item e st' (sprite item) = updateSpinItem item e st (sprite item)"
  by (simp add: updateSpinItem_def)

lemma tickSpinSystem_item:
  "distinct (map sprite xs) \<Longrightarrow> item \<in> set xs \<Longrightarrow>
   tickSpinSystem xs e st (sprite item) = updateSpinItem item e st (sprite item)"
proof (induction xs arbitrary: st)
  case Nil
  then show ?case by simp
next
  case (Cons x xs)
  show ?case
  proof (cases "item = x")
    case True
    with Cons.prems have "sprite item \<notin> sprite ` set xs" by auto
    with True show ?thesis by (simp add: tickSpinSystem_other)
  next
    case False
    with Cons.prems have mem: "item \<in> set xs" and d: "distinct (map sprite xs)"
      and nx: "sprite x \<notin> sprite ` set xs" by auto
    from mem nx have ne: "sprite item \<noteq> sprite x" by (metis image_eqI)
    have "tickSpinSystem xs e (updateSpinItem x e st) (sprite item)
          = updateSpinItem item e (updateSpinItem x e st) (sprite item)"
      using Cons.IH [OF d mem] .
    also have "\<dots> = updateSpinItem item e st (sprite item)"
      using ne by (intro updateSpinItem_cong) (simp add: updateSpinItem_other)
    finally show ?thesis by simp
  qed
qed

lemma updateSpinItem_active:
  "active item \<Longrightarrow> rotation (updateSpinItem item e st (sprite item))
     = js_add (baseRotation item) (Fin (direction item * radPerSecond item * e))"
  by (simp add: updateSpinItem_def)

lemma updateSpinItem_inactive: "\<not> active item \<Longrightarrow> updateSpinItem item e st = st"
  by (simp add: updateSpinItem_def)

lemma SpinL_tick_items: "items (fst (SpinL_tick d ps)) = items (fst ps)"
  by (simp add: SpinL_tick_def Let_def)

lemma SpinL_tick_elapsed:
  "items (fst ps) \<noteq> [] \<Longrightarrow> elapsedTime (fst (SpinL_tick d ps)) = elapsedTime (fst ps) + d"
  by (simp add: SpinL_tick_def Let_def)

lemma SpinL_tick_store:
  "items (fst ps) \<noteq> [] \<Longrightarrow>
   snd (SpinL_tick d ps) = tickSpinSystem (items (fst ps)) (elapsedTime (fst ps) + d) (snd ps)"
  by (simp add: SpinL_tick_def Let_def)

lemma SpinL_ticks_items: "items (fst (SpinL_ticks ds ps)) = items (fst ps)"
  unfolding SpinL_ticks_def
  by (induction ds arbitrary: ps) (simp_all add: SpinL_tick_items)

lemma SpinL_ticks_elapsed:
  "items (fst ps) \<noteq> [] \<Longrightarrow> elapsedTime (fst (SpinL_ticks ds ps)) = elapsedTime (fst ps) + sum_list ds"
  unfolding SpinL_ticks_def
  by (induction ds arbitrary: ps) (simp_all add: SpinL_tick_items SpinL_tick_elapsed)

lemma SpinL_ticks_snoc: "SpinL_ticks (ds @ [d]) ps = SpinL_tick d (SpinL_ticks ds ps)"
  by (simp add: SpinL_ticks_def)

lemma SpinL_ticks_rotation:
  assumes "distinct (map sprite (items (fst ps)))" "item \<in> set (items (fst ps))" "active item" "ds \<noteq> []"
  shows "rotation (snd (SpinL_ticks ds ps) (sprite item))
         = js_add (baseRotation item)
             (Fin (direction item * radPerSecond item * (elapsedTime (fst ps) + sum_list ds)))"
proof -
  from assms(4) obtain ds' d where ds: "ds = ds' @ [d]"
    by (cases ds rule: rev_cases) auto
  let ?q = "SpinL_ticks ds' ps"
  have it: "items (fst ?q) = items (fst ps)" by (rule SpinL_ticks_items)
  from assms(2) have ne: "items (fst ps) \<noteq> []" by auto
  have el: "elapsedTime (fst ?q) = elapsedTime (fst ps) + sum_list ds'"
    using ne by (rule SpinL_ticks_elapsed)
  have "snd (SpinL_ticks ds ps) = tickSpinSystem (items (fst ps)) (elapsedTime (fst ?q) + d) (snd ?q)"
    using ne it by (simp add: ds SpinL_ticks_snoc SpinL_tick_store)
  then show ?thesis
    using assms(1,2,3) el
    by (simp add: tickSpinSystem_item updateSpinItem_active ds algebra_simps)
qed

lemma SpinL_ticks_monotone:
  "\<forall>d \<in> set ds. 0 \<le> d \<Longrightarrow> elapsedTime (fst ps) \<le> elapsedTime (fst (SpinL_ticks ds ps))"
proof (cases "items (fst ps) = []")
  case True
  have "SpinL_ticks ds ps = ps"
    unfolding SpinL_ticks_def using True
    by (induction ds) (simp_all add: SpinL_tick_def Let_def)
  then show ?thesis by simp
next
  case False
  assume "\<forall>d \<in> set ds. 0 \<le> d"
  then have "0 \<le> sum_list ds" by (simp add: sum_list_nonneg)
  with False show ?thesis by (simp add: SpinL_ticks_elapsed)
qed

lemma buildSpinItems_sprites:
  "set (map sprite (buildSpinItems st layers)) \<subseteq> set (map layer_sprite layers)"
  by (induction layers) (auto simp: createSpinItem_def Let_def split: option.splits if_splits)

lemma buildSpinItems_distinct:
  "distinct (map layer_sprite layers) \<Longrightarrow> distinct (map sprite (buildSpinItems st layers))"
proof (induction layers)
  case Nil
  then show ?case by simp
next
  case (Cons l ls)
  then have d: "distinct (map sprite (buildSpinItems st ls))" and n: "layer_sprite l \<notin> set (map layer_sprite ls)"
    by auto
  from n buildSpinItems_sprites [of st ls] have "layer_sprite l \<notin> set (map sprite (buildSpinItems st ls))"
    by blast
  with d show ?case
    by (auto simp: createSpinItem_def Let_def split: option.splits if_splits)
qed

lemma buildSpinItems_mem:
  "layer \<in> set layers \<Longrightarrow> createSpinItem st layer = Some item \<Longrightarrow> item \<in> set (buildSpinItems st layers)"
  by (induction layers) (auto split: option.splits)

lemma createSpinItem_Some:
  "0 < clampRpm60 (spinRPM (layer_cfg layer)) \<Longrightarrow>
   \<exists>item. createSpinItem st layer = Some item \<and> sprite item = layer_sprite layer
     \<and> layerId item = layer_id layer
     \<and> baseRotation item = rotation (st (layer_sprite layer))
     \<and> radPerSecond item = clampRpm60 (spinRPM (layer_cfg layer)) * pi / 30
     \<and> rpm item = clampRpm60 (spinRPM (layer_cfg layer))
     \<and> direction item = (if spinDir (layer_cfg layer) = Some CCW then - 1 else 1)
     \<and> active item"
  by (simp add: createSpinItem_def createSpinConfig_def rpmToRadPerSecond_def Let_def)

lemma createSpinItem_fields:
  "createSpinItem st layer = Some item \<Longrightarrow>
     radPerSecond item = rpm item * pi / 30
     \<and> rpm item = clampRpm60 (spinRPM (layer_cfg layer))
     \<and> baseRotation item = rotation (st (layer_sprite layer)) \<and> active item"
  by (auto simp: createSpinItem_def createSpinConfig_def rpmToRadPerSecond_def Let_def split: if_splits)

lemma SpinL_init_run:
  assumes "distinct (map layer_sprite layers)" "layer \<in> set layers"
    "0 < clampRpm60 (spinRPM (layer_cfg layer))" "ds \<noteq> []"
  shows "rotation (snd (SpinL_ticks ds (SpinL_init st layers, st)) (layer_sprite layer))
     = js_add (rotation (st (layer_sprite layer)))
         (Fin ((if spinDir (layer_cfg layer) = Some CCW then - 1 else 1)
               * (clampRpm60 (spinRPM (layer_cfg layer)) * pi / 30) * sum_list ds))"
proof -
  from createSpinItem_Some [OF assms(3), of st] obtain item where
    c: "createSpinItem st layer = Some item" and s: "sprite item = layer_sprite layer"
    and b: "baseRotation item = rotation (st (layer_sprite layer))"
    and r: "radPerSecond item = clampRpm60 (spinRPM (layer_cfg layer)) * pi / 30"
    and d: "direction item = (if spinDir (layer_cfg layer) = Some CCW then - 1 else 1)"
    and a: "active item" by blast
  let ?p = "SpinL_init st layers"
  have i: "items ?p = buildSpinItems st layers" and e: "elapsedTime ?p = 0"
    by (simp_all add: SpinL_init_def buildSpinSystem_def)
  have "rotation (snd (SpinL_ticks ds (?p, st)) (sprite item))
         = js_add (baseRotation item)
             (Fin (direction item * radPerSecond item * (elapsedTime (fst (?p, st)) + sum_list ds)))"
    using assms(1,2,4) a c
    by (intro SpinL_ticks_rotation) (simp_all add: i buildSpinItems_distinct buildSpinItems_mem)
  then show ?thesis
    by (simp only: s b r d e fst_conv) simp
qed

lemma update_found_keeps:
  "\<forall>x \<in> set xs. Q x \<Longrightarrow> (\<And>x. Q x \<Longrightarrow> Q (f x)) \<Longrightarrow> \<forall>x \<in> set (update_found P f xs). Q x"
  by (induction xs) auto

text \<open>
  Claim C6.  The spin update of an active item sets the rotation of its drawable
  to \<open>baseRotation + direction * radPerSecond * elapsed\<close>, for every elapsed
  time; the sum is that of the language, so for a finite base rotation \<open>b\<close> it is
  the finite number \<open>b + direction * radPerSecond * elapsed\<close>.  An item is created
  with \<open>radPerSecond = rpm * pi / 30\<close>, where \<open>rpm\<close> is the clamped spin rate of the
  layer, and with the rotation of the drawable as base rotation.  The elapsed
  time of the processor is 0 after \<open>init\<close> and grows by the delta of every tick
  while there are items, so with deltas that are not negative it never
  decreases.  Hence after at least one tick an active item whose drawable no
  other item shares has the rotation given by the formula at the sum of the
  deltas; for a scene whose layers have distinct drawables this is the initial
  rotation plus direction times \<open>rpm * pi / 30\<close> times the sum of the deltas, and
  for 30 RPM clockwise after exactly one second it is the initial rotation plus
  \<open>pi\<close>.  \<open>updateRPM\<close> keeps \<open>radPerSecond = rpm * pi / 30\<close> for every item.
\<close>

theorem spin_rotation_formula:
  "(active item \<longrightarrow>
      rotation (updateSpinItem item e st (sprite item))
        = js_add (baseRotation item) (Fin (direction item * radPerSecond item * e)))
   \<and> (active item \<and> baseRotation item = Fin b \<longrightarrow>
      rotation (updateSpinItem item e st (sprite item))
        = Fin (b + direction item * radPerSecond item * e))
   \<and> (createSpinItem st layer = Some item \<longrightarrow>
        radPerSecond item = rpm item * pi / 30
        \<and> rpm item = clampRpm60 (spinRPM (layer_cfg layer))
        \<and> baseRotation item = rotation (st (layer_sprite layer)) \<and> active item)
   \<and> elapsedTime (SpinL_init st layers) = 0
   \<and> (items p \<noteq> [] \<longrightarrow> elapsedTime (fst (SpinL_ticks ds (p, st))) = elapsedTime p + sum_list ds)
   \<and> ((\<forall>d \<in> set ds. 0 \<le> d) \<longrightarrow> elapsedTime p \<le> elapsedTime (fst (SpinL_ticks ds (p, st))))
   \<and> (distinct (map sprite (items p)) \<and> item \<in> set (items p) \<and> active item \<and> ds \<noteq> [] \<longrightarrow>
        rotation (snd (SpinL_ticks ds (p, st)) (sprite item))
          = js_add (baseRotation item)
              (Fin (direction item * radPerSecond item * (elapsedTime p + sum_list ds))))
   \<and> (distinct (map layer_sprite layers) \<and> layer \<in> set layers
        \<and> 0 < clampRpm60 (spinRPM (layer_cfg layer)) \<and> ds \<noteq> [] \<longrightarrow>
        rotation (snd (SpinL_ticks ds (SpinL_init st layers, st)) (layer_sprite layer))
          = js_add (rotation (st (layer_sprite layer)))
              (Fin ((if spinDir (layer_cfg layer) = Some CCW then - 1 else 1)
                    * (clampRpm60 (spinRPM (layer_cfg layer)) * pi / 30) * sum_list ds)))
   \<and> (distinct (map layer_sprite layers) \<and> layer \<in> set layers
        \<and> spinRPM (layer_cfg layer) = JNumber (Fin 30) \<and> spinDir (layer_cfg layer) \<noteq> Some CCW
        \<and> ds \<noteq> [] \<and> sum_list ds = 1 \<longrightarrow>
        rotation (snd (SpinL_ticks ds (SpinL_init st layers, st)) (layer_sprite layer))
          = js_add (rotation (st (layer_sprite layer))) (Fin pi))
   \<and> (distinct (map layer_sprite layers) \<and> layer \<in> set layers
        \<and> spinRPM (layer_cfg layer) = JNumber (Fin 30) \<and> spinDir (layer_cfg layer) \<noteq> Some CCW
        \<and> ds \<noteq> [] \<and> sum_list ds = 1 \<and> rotation (st (layer_sprite layer)) = Fin b \<longrightarrow>
        rotation (snd (SpinL_ticks ds (SpinL_init st layers, st)) (layer_sprite layer))
          = Fin (b + pi))
   \<and> ((\<forall>i \<in> set (items p). radPerSecond i = rpm i * pi / 30) \<longrightarrow>
        (\<forall>i \<in> set (items (SpinL_updateRPM lid r p)). radPerSecond i = rpm i * pi / 30))"
proof -
  have p1: "active item \<longrightarrow>
      rotation (updateSpinItem item e st (sprite item))
        = js_add (baseRotation item) (Fin (direction item * radPerSecond item * e))"
    using updateSpinItem_active [of item e st] by blast
  have p1f: "active item \<and> baseRotation item = Fin b \<longrightarrow>
      rotation (updateSpinItem item e st (sprite item))
        = Fin (b + direction item * radPerSecond item * e)"
    using updateSpinItem_active [of item e st] by simp
  have p2: "createSpinItem st layer = Some item \<longrightarrow>
        radPerSecond item = rpm item * pi / 30
        \<and> rpm item = clampRpm60 (spinRPM (layer_cfg layer))
        \<and> baseRotation item = rotation (st (layer_sprite layer)) \<and> active item"
    using createSpinItem_fields [of st layer item] by blast
  have p3: "elapsedTime (SpinL_init st layers) = 0"
    by (simp add: SpinL_init_def Let_def)
  have p4: "items p \<noteq> [] \<longrightarrow> elapsedTime (fst (SpinL_ticks ds (p, st))) = elapsedTime p + sum_list ds"
    using SpinL_ticks_elapsed [of "(p, st)" ds] by simp
  have p5: "(\<forall>d \<in> set ds. 0 \<le> d) \<longrightarrow> elapsedTime p \<le> elapsedTime (fst (SpinL_ticks ds (p, st)))"
    using SpinL_ticks_monotone [of ds "(p, st)"] by simp
  have p6: "distinct (map sprite (items p)) \<and> item \<in> set (items p) \<and> active item \<and> ds \<noteq> [] \<longrightarrow>
        rotation (snd (SpinL_ticks ds (p, st)) (sprite item))
          = js_add (baseRotation item)
              (Fin (direction item * radPerSecond item * (elapsedTime p + sum_list ds)))"
    using SpinL_ticks_rotation [of "(p, st)" item ds] by simp
  have p7: "distinct (map layer_sprite layers) \<and> layer \<in> set layers
        \<and> 0 < clampRpm60 (spinRPM (layer_cfg layer)) \<and> ds \<noteq> [] \<longrightarrow>
        rotation (snd (SpinL_ticks ds (SpinL_init st layers, st)) (layer_sprite layer))
          = js_add (rotation (st (layer_sprite layer)))
              (Fin ((if spinDir (layer_cfg layer) = Some CCW then - 1 else 1)
                    * (clampRpm60 (spinRPM (layer_cfg layer)) * pi / 30) * sum_list ds))"
    using SpinL_init_run [of layers layer ds st] by blast
  have run: "rotation (snd (SpinL_ticks ds (SpinL_init st layers, st)) (layer_sprite layer))
          = js_add (rotation (st (layer_sprite layer))) (Fin pi)"
    if "distinct (map layer_sprite layers)" "layer \<in> set layers"
      "spinRPM (layer_cfg layer) = JNumber (Fin 30)" "spinDir (layer_cfg layer) \<noteq> Some CCW"
      "ds \<noteq> []" "sum_list ds = 1"
  proof -
    have c: "clampRpm60 (spinRPM (layer_cfg layer)) = 30"
      using that(3) by (simp add: clampRpm60_Fin)
    show ?thesis
      using SpinL_init_run [of layers layer ds st] that c by simp
  qed
  have p8: "distinct (map layer_sprite layers) \<and> layer \<in> set layers
        \<and> spinRPM (layer_cfg layer) = JNumber (Fin 30) \<and> spinDir (layer_cfg layer) \<noteq> Some CCW
        \<and> ds \<noteq> [] \<and> sum_list ds = 1 \<longrightarrow>
        rotation (snd (SpinL_ticks ds (SpinL_init st layers, st)) (layer_sprite layer))
          = js_add (rotation (st (layer_sprite layer))) (Fin pi)"
    using run by blast
  have p8f: "distinct (map layer_sprite layers) \<and> layer \<in> set layers
        \<and> spinRPM (layer_cfg layer) = JNumber (Fin 30) \<and> spinDir (layer_cfg layer) \<noteq> Some CCW
        \<and> ds \<noteq> [] \<and> sum_list ds = 1 \<and> rotation (st (layer_sprite layer)) = Fin b \<longrightarrow>
        rotation (snd (SpinL_ticks ds (SpinL_init st layers, st)) (layer_sprite layer))
          = Fin (b + pi)"
    using run by simp
  have p9: "(\<forall>i \<in> set (items p). radPerSecond i = rpm i * pi / 30) \<longrightarrow>
        (\<forall>i \<in> set (items (SpinL_updateRPM lid r p)). radPerSecond i = rpm i * pi / 30)"
  proof
    assume h: "\<forall>i \<in> set (items p). radPerSecond i = rpm i * pi / 30"
    have "\<forall>i \<in> set (update_found (\<lambda>i. layerId i = lid)
            (\<lambda>item. let r' = clampRpm60 r
                     in item \<lparr> radPerSecond := rpmToRadPerSecond r', rpm := r', active := (0 < r') \<rparr>)
            (items p)). radPerSecond i = rpm i * pi / 30"
      by (rule update_found_keeps [OF h]) (simp add: rpmToRadPerSecond_def Let_def)
    then show "\<forall>i \<in> set (items (SpinL_updateRPM lid r p)). radPerSecond i = rpm i * pi / 30"
      by (simp add: SpinL_updateRPM_def)
  qed
  show ?thesis
    using p1 p1f p2 p3 p4 p5 p6 p7 p8 p8f p9 by (intro conjI) assumption+
qed

theorem spin_rotation_formula_witness:
  "active \<lparr> sprite = 0, layerId = ''gear'', baseRotation = Fin 0, radPerSecond = 30 * pi / 30,
             direction = 1, rpm = 30, active = True \<rparr>
   \<and> createSpinItem freshStore
         (builtLayer 0 ((createDefaultLayer ''gear'') \<lparr> spinRPM := JNumber (Fin 30) \<rparr>))
       = Some \<lparr> sprite = 0, layerId = ''gear'', baseRotation = Fin 0, radPerSecond = 30 * pi / 30,
                direction = 1, rpm = 30, active = True \<rparr>
   \<and> distinct (map layer_sprite [builtLayer 0 ((createDefaultLayer ''gear'') \<lparr> spinRPM := JNumber (Fin 30) \<rparr>)])
   \<and> spinRPM (layer_cfg (builtLayer 0 ((createDefaultLayer ''gear'') \<lparr> spinRPM := JNumber (Fin 30) \<rparr>)))
       = JNumber (Fin 30)
   \<and> spinDir (layer_cfg (builtLayer 0 ((createDefaultLayer ''gear'') \<lparr> spinRPM := JNumber (Fin 30) \<rparr>)))
       \<noteq> Some CCW
   \<and> sum_list [1 / 4, 3 / 4] = (1::real)
   \<and> rotation (updateSpinItem
         \<lparr> sprite = 0, layerId = ''gear'', baseRotation = Fin 0, radPerSecond = 30 * pi / 30,
           direction = 1, rpm = 30, active = True \<rparr> 2 freshStore 0) = Fin (2 * pi)
   \<and> elapsedTime (fst (SpinL_ticks [1 / 4, 3 / 4]
         (SpinL_init freshStore
            [builtLayer 0 ((createDefaultLayer ''gear'') \<lparr> spinRPM := JNumber (Fin 30) \<rparr>)],
          freshStore))) = 1
   \<and> rotation (snd (SpinL_ticks [1 / 4, 3 / 4]
         (SpinL_init freshStore
            [builtLayer 0 ((createDefaultLayer ''gear'') \<lparr> spinRPM := JNumber (Fin 30) \<rparr>)],
          freshStore)) 0) = Fin pi"
  using spin_rotation_formula
    [of "\<lparr> sprite = 0, layerId = ''gear'', baseRotation = Fin 0, radPerSecond = 30 * pi / 30,
           direction = 1, rpm = 30, active = True \<rparr>"
        2 freshStore 0 "builtLayer 0 ((createDefaultLayer ''gear'') \<lparr> spinRPM := JNumber (Fin 30) \<rparr>)"
        "[builtLayer 0 ((createDefaultLayer ''gear'') \<lparr> spinRPM := JNumber (Fin 30) \<rparr>)]"
        "SpinL_init freshStore
            [builtLayer 0 ((createDefaultLayer ''gear'') \<lparr> spinRPM := JNumber (Fin 30) \<rparr>)]"
        "[1 / 4, 3 / 4]" "''gear''" "JNumber (Fin 12)"]
  by (simp add: SpinL_init_def buildSpinSystem_def createSpinItem_def createSpinConfig_def
      builtLayer_def createDefaultLayer_def clampRpm60_Fin rpmToRadPerSecond_def
      freshStore_def newSprite_def)

lemma update_found_noop: "\<forall>x \<in> set xs. \<not> P x \<Longrightarrow> update_found P f xs = xs"
  by (induction xs) auto

lemma update_found_map: "(\<And>x. g (f x) = g x) \<Longrightarrow> map g (update_found P f xs) = map g xs"
  by (induction xs) auto

lemma update_found_mem:
  "distinct (map k xs) \<Longrightarrow> x \<in> set xs \<Longrightarrow> f x \<in> set (update_found (\<lambda>i. k i = k x) f xs)"
proof (induction xs)
  case Nil
  then show ?case by simp
next
  case (Cons y ys)
  show ?case
  proof (cases "k y = k x")
    case True
    with Cons.prems have "y = x" by (metis distinct.simps(2) image_eqI list.set_map list.simps(9) set_ConsD)
    with True show ?thesis by simp
  next
    case False
    with Cons show ?thesis by auto
  qed
qed

lemma SpinL_ticks_inactive:
  "distinct (map sprite (items (fst ps))) \<Longrightarrow> item \<in> set (items (fst ps)) \<Longrightarrow> \<not> active item \<Longrightarrow>
   snd (SpinL_ticks ds ps) (sprite item) = snd ps (sprite item)"
proof (induction ds arbitrary: ps)
  case Nil
  then show ?case by (simp add: SpinL_ticks_def)
next
  case (Cons d ds)
  let ?q = "SpinL_tick d ps"
  have it: "items (fst ?q) = items (fst ps)" by (rule SpinL_tick_items)
  from Cons.prems have ne: "items (fst ps) \<noteq> []" by auto
  have "snd (SpinL_ticks ds ?q) (sprite item) = snd ?q (sprite item)"
    using Cons.prems by (intro Cons.IH) (simp_all add: it)
  also have "\<dots> = snd ps (sprite item)"
    using Cons.prems ne
    by (simp add: SpinL_tick_store tickSpinSystem_item updateSpinItem_inactive)
  finally show ?case by (simp add: SpinL_ticks_def)
qed

lemma toggle_items:
  "items (SpinL_toggleSpin lid p)
     = update_found (\<lambda>i. layerId i = lid) (\<lambda>i. i \<lparr> active := \<not> active i \<rparr>) (items p)"
  and toggle_elapsed: "elapsedTime (SpinL_toggleSpin lid p) = elapsedTime p"
  by (simp_all add: SpinL_toggleSpin_def)

text \<open>
  Claim C10.  Take an active spin item of a processor whose items have distinct
  drawables and distinct layer ids.  After \<open>toggleSpin\<close> has switched it off, any
  number of ticks leave its drawable unchanged, yet the elapsed time of the
  processor grows by the sum of their deltas.  After a second \<open>toggleSpin\<close> the
  next tick sets the rotation to \<open>baseRotation + direction * radPerSecond\<close> times
  the whole elapsed time, the interval spent switched off included: the
  rotation it would have had it never been switched off.  The sum is that of
  the language, a finite number for a finite base rotation.
\<close>

theorem toggle_does_not_pause_clock:
  assumes ds: "distinct (map sprite (items p))" and dl: "distinct (map layerId (items p))"
    and mem: "item \<in> set (items p)" and act: "active item"
  shows "snd (SpinL_ticks deltas (SpinL_toggleSpin (layerId item) p, st)) (sprite item) = st (sprite item)
    \<and> elapsedTime (fst (SpinL_ticks deltas (SpinL_toggleSpin (layerId item) p, st)))
        = elapsedTime p + sum_list deltas
    \<and> rotation (snd (SpinL_tick d
          (SpinL_toggleSpin (layerId item) (fst (SpinL_ticks deltas (SpinL_toggleSpin (layerId item) p, st))),
           snd (SpinL_ticks deltas (SpinL_toggleSpin (layerId item) p, st)))) (sprite item))
        = js_add (baseRotation item)
            (Fin (direction item * radPerSecond item * (elapsedTime p + sum_list deltas + d)))
    \<and> rotation (snd (SpinL_tick d
          (SpinL_toggleSpin (layerId item) (fst (SpinL_ticks deltas (SpinL_toggleSpin (layerId item) p, st))),
           snd (SpinL_ticks deltas (SpinL_toggleSpin (layerId item) p, st)))) (sprite item))
        = rotation (snd (SpinL_ticks (deltas @ [d]) (p, st)) (sprite item))"
proof -
  let ?f = "\<lambda>i::SpinItem. i \<lparr> active := \<not> active i \<rparr>"
  let ?lid = "layerId item"
  let ?p1 = "SpinL_toggleSpin ?lid p"
  let ?off = "?f item"
  let ?r = "SpinL_ticks deltas (?p1, st)"
  let ?p3 = "SpinL_toggleSpin ?lid (fst ?r)"
  have sp1: "map sprite (items ?p1) = map sprite (items p)"
    and id1: "map layerId (items ?p1) = map layerId (items p)"
    by (simp_all add: toggle_items update_found_map)
  have off_mem: "?off \<in> set (items ?p1)"
    using update_found_mem [OF dl mem, of ?f] by (simp add: toggle_items)
  have off: "\<not> active ?off" "sprite ?off = sprite item" "layerId ?off = ?lid"
    using act by simp_all
  have a: "snd ?r (sprite item) = st (sprite item)"
    using SpinL_ticks_inactive [of "(?p1, st)" ?off deltas] off off_mem ds sp1 by simp
  have ne1: "items ?p1 \<noteq> []" using off_mem by auto
  have b: "elapsedTime (fst ?r) = elapsedTime p + sum_list deltas"
    using SpinL_ticks_elapsed [of "(?p1, st)" deltas] ne1 by (simp add: toggle_elapsed)
  have it2: "items (fst ?r) = items ?p1"
    using SpinL_ticks_items [of deltas "(?p1, st)"] by simp
  have on: "?f ?off = item" using act by simp
  have on_mem: "item \<in> set (items ?p3)"
    using update_found_mem [of layerId "items ?p1" ?off ?f] off_mem dl id1 on
    by (simp add: toggle_items it2)
  have sp3: "map sprite (items ?p3) = map sprite (items p)"
    using sp1 by (simp add: toggle_items it2 update_found_map)
  have el3: "elapsedTime ?p3 = elapsedTime p + sum_list deltas"
    using b by (simp add: toggle_elapsed)
  have ne3: "items ?p3 \<noteq> []" using on_mem by auto
  have c: "rotation (snd (SpinL_tick d (?p3, snd ?r)) (sprite item))
        = js_add (baseRotation item)
            (Fin (direction item * radPerSecond item * (elapsedTime p + sum_list deltas + d)))"
    using ne3 on_mem sp3 ds act el3
    by (simp add: SpinL_tick_store tickSpinSystem_item updateSpinItem_active)
  have e: "rotation (snd (SpinL_ticks (deltas @ [d]) (p, st)) (sprite item))
        = js_add (baseRotation item)
            (Fin (direction item * radPerSecond item * (elapsedTime p + sum_list deltas + d)))"
    using SpinL_ticks_rotation [of "(p, st)" item "deltas @ [d]"] ds mem act
    by (simp add: algebra_simps)
  from a b c e show ?thesis by simp
qed

theorem toggle_does_not_pause_clock_witness:
  "rotation (snd (SpinL_tick (1 / 2)
      (SpinL_toggleSpin ''gear''
         (fst (SpinL_ticks [1, 2]
            (SpinL_toggleSpin ''gear''
               (SpinL_init freshStore
                  [builtLayer 0 ((createDefaultLayer ''gear'') \<lparr> spinRPM := JNumber (Fin 30) \<rparr>)]),
             freshStore))),
       snd (SpinL_ticks [1, 2]
            (SpinL_toggleSpin ''gear''
               (SpinL_init freshStore
                  [builtLayer 0 ((createDefaultLayer ''gear'') \<lparr> spinRPM := JNumber (Fin 30) \<rparr>)]),
             freshStore)))) 0)
   = Fin (0 + 1 * (30 * pi / 30) * (0 + sum_list [1, 2] + 1 / 2))"
  using toggle_does_not_pause_clock
    [of "SpinL_init freshStore
           [builtLayer 0 ((createDefaultLayer ''gear'') \<lparr> spinRPM := JNumber (Fin 30) \<rparr>)]"
        "\<lparr> sprite = 0, layerId = ''gear'', baseRotation = Fin 0, radPerSecond = 30 * pi / 30,
           direction = 1, rpm = 30, active = True \<rparr>"
        "[1, 2]" freshStore "1 / 2"]
  by (simp add: SpinL_init_def buildSpinSystem_def createSpinItem_def createSpinConfig_def
      builtLayer_def createDefaultLayer_def clampRpm60_Fin rpmToRadPerSecond_def
      freshStore_def newSprite_def)

subsection \<open>Control operations on unknown layer ids\<close>

lemma updateCenter_items_noop:
  "\<forall>i \<in> set xs. o_layerId i \<noteq> lid \<Longrightarrow> updateCenter_items lid c e xs st = (xs, st)"
  by (induction xs) (auto simp: Let_def)

lemma buildSpinItems_ids: "layerId ` set (buildSpinItems st layers) \<subseteq> layer_id ` set layers"
  by (induction layers) (auto simp: createSpinItem_def Let_def split: option.splits if_splits)

lemma createOrbitItem_id: "createOrbitItem layer m = Some item \<Longrightarrow> o_layerId item = layer_id layer"
  by (auto simp: createOrbitItem_def Let_def split: if_splits)

lemma buildOrbitItems_ids: "o_layerId ` set (buildOrbitItems layers m) \<subseteq> layer_id ` set layers"
  by (induction layers) (auto split: option.splits dest: createOrbitItem_id)

text \<open>
  Claim C9.  The items that \<open>init\<close> builds carry layer ids of the scene, so an id
  that no layer of the scene has is the id of no item.  For an id that no item
  of the Spin processor has, \<open>updateRPM\<close>, \<open>toggleSpin\<close> and \<open>setDirection\<close> return
  the processor as it was; for an id that no item of the Orbit processor has,
  \<open>updateRPM\<close> and \<open>setDirection\<close> return the processor as it was, and
  \<open>updateCenter\<close> returns the processor and the store of drawables as they were.
  None of the operations has an error outcome.
\<close>

theorem unknown_id_noop:
  "(lid \<notin> layer_id ` set layers \<longrightarrow>
      lid \<notin> layerId ` set (items (SpinL_init st layers))
      \<and> lid \<notin> o_layerId ` set (op_items (Orbit_init layers)))
   \<and> (lid \<notin> layerId ` set (items sp) \<longrightarrow>
        SpinL_updateRPM lid r sp = sp \<and> SpinL_toggleSpin lid sp = sp \<and> SpinL_setDirection lid d sp = sp)
   \<and> (lid \<notin> o_layerId ` set (op_items p) \<longrightarrow>
        Orbit_updateRPM lid r p = p \<and> Orbit_setDirection lid d p = p
        \<and> Orbit_updateCenter lid c (p, st) = (p, st))"
proof -
  have a: "lid \<notin> layerId ` set (items (SpinL_init st layers))
      \<and> lid \<notin> o_layerId ` set (op_items (Orbit_init layers))"
    if "lid \<notin> layer_id ` set layers"
    using that buildSpinItems_ids [of st layers] buildOrbitItems_ids [of layers Map.empty]
    by (auto simp: SpinL_init_def buildSpinSystem_def Orbit_init_def Let_def)
  have b: "SpinL_updateRPM lid r sp = sp \<and> SpinL_toggleSpin lid sp = sp \<and> SpinL_setDirection lid d sp = sp"
    if "lid \<notin> layerId ` set (items sp)"
  proof -
    from that have "\<forall>i \<in> set (items sp). \<not> layerId i = lid" by auto
    then show ?thesis
      by (simp add: SpinL_updateRPM_def SpinL_toggleSpin_def SpinL_setDirection_def update_found_noop)
  qed
  have c: "Orbit_updateRPM lid r p = p \<and> Orbit_setDirection lid d p = p
        \<and> Orbit_updateCenter lid c (p, st) = (p, st)"
    if "lid \<notin> o_layerId ` set (op_items p)"
  proof -
    from that have n: "\<forall>i \<in> set (op_items p). o_layerId i \<noteq> lid" by auto
    then have "\<forall>i \<in> set (op_items p). \<not> o_layerId i = lid" by simp
    then show ?thesis
      using updateCenter_items_noop [OF n]
      by (simp add: Orbit_updateRPM_def Orbit_setDirection_def Orbit_updateCenter_def
          update_found_noop Let_def)
  qed
  from a b c show ?thesis by blast
qed

theorem unknown_id_noop_witness:
  "''moon'' \<notin> layer_id ` set [builtLayer 0 ((createDefaultLayer ''gear'') \<lparr> spinRPM := JNumber (Fin 30) \<rparr>)]
   \<and> ''moon'' \<notin> layerId ` set (items (SpinL_init freshStore
        [builtLayer 0 ((createDefaultLayer ''gear'') \<lparr> spinRPM := JNumber (Fin 30) \<rparr>)]))
   \<and> SpinL_toggleSpin ''moon'' (SpinL_init freshStore
        [builtLayer 0 ((createDefaultLayer ''gear'') \<lparr> spinRPM := JNumber (Fin 30) \<rparr>)])
      = SpinL_init freshStore
        [builtLayer 0 ((createDefaultLayer ''gear'') \<lparr> spinRPM := JNumber (Fin 30) \<rparr>)]
   \<and> SpinL_updateRPM ''moon'' (JNumber (Fin 12)) (SpinL_init freshStore
        [builtLayer 0 ((createDefaultLayer ''gear'') \<lparr> spinRPM := JNumber (Fin 30) \<rparr>)])
      = SpinL_init freshStore
        [builtLayer 0 ((createDefaultLayer ''gear'') \<lparr> spinRPM := JNumber (Fin 30) \<rparr>)]
   \<and> ''moon'' \<notin> o_layerId ` set (op_items
        \<lparr> op_items = [\<lparr> o_sprite = 0, o_layerId = ''gear'', o_cfg = createDefaultLayer ''gear'',
             o_direction = 1, o_radPerSecond = pi / 3, centerPercent = (50, 50),
             centerPixels = (512, 512), radius = 100, basePhase = Fin 0, orientPolicy = PolicyNone,
             orientRadians = 0, spinRpm = 0, o_active = True \<rparr>], op_elapsedTime = 3 \<rparr>)
   \<and> Orbit_updateCenter ''moon'' (20, 30)
        (\<lparr> op_items = [\<lparr> o_sprite = 0, o_layerId = ''gear'', o_cfg = createDefaultLayer ''gear'',
             o_direction = 1, o_radPerSecond = pi / 3, centerPercent = (50, 50),
             centerPixels = (512, 512), radius = 100, basePhase = Fin 0, orientPolicy = PolicyNone,
             orientRadians = 0, spinRpm = 0, o_active = True \<rparr>], op_elapsedTime = 3 \<rparr>, freshStore)
      = (\<lparr> op_items = [\<lparr> o_sprite = 0, o_layerId = ''gear'', o_cfg = createDefaultLayer ''gear'',
             o_direction = 1, o_radPerSecond = pi / 3, centerPercent = (50, 50),
             centerPixels = (512, 512), radius = 100, basePhase = Fin 0, orientPolicy = PolicyNone,
             orientRadians = 0, spinRpm = 0, o_active = True \<rparr>], op_elapsedTime = 3 \<rparr>, freshStore)"
  using unknown_id_noop
    [of "''moon''" "[builtLayer 0 ((createDefaultLayer ''gear'') \<lparr> spinRPM := JNumber (Fin 30) \<rparr>)]"
        freshStore
        "SpinL_init freshStore
           [builtLayer 0 ((createDefaultLayer ''gear'') \<lparr> spinRPM := JNumber (Fin 30) \<rparr>)]"
        "JNumber (Fin 12)" CCW
        "\<lparr> op_items = [\<lparr> o_sprite = 0, o_layerId = ''gear'', o_cfg = createDefaultLayer ''gear'',
             o_direction = 1, o_radPerSecond = pi / 3, centerPercent = (50, 50),
             centerPixels = (512, 512), radius = 100, basePhase = Fin 0, orientPolicy = PolicyNone,
             orientRadians = 0, spinRpm = 0, o_active = True \<rparr>], op_elapsedTime = 3 \<rparr>"
        "(20, 30)"]
  by (simp add: builtLayer_def createDefaultLayer_def)

subsection \<open>Orbit orientation\<close>

lemma updateOrbitItem_other: "h \<noteq> o_sprite item \<Longrightarrow> updateOrbitItem item e st h = st h"
  by (simp add: updateOrbitItem_def Let_def)

lemma updateOrbitItem_inert: "\<not> o_active item \<or> radius item \<le> 0 \<Longrightarrow> updateOrbitItem item e st = st"
  by (auto simp: updateOrbitItem_def)

lemma updateOrbitItem_oriented:
  "o_active item \<Longrightarrow> 0 < radius item \<Longrightarrow>
   orientPolicy item = PolicyOverride \<or> (orientPolicy item = PolicyAuto \<and> spinRpm item \<le> 0) \<Longrightarrow>
   rotation (updateOrbitItem item e st (o_sprite item))
     = js_add (orbitAngle item e) (Fin (orientRadians item))"
  by (auto simp: updateOrbitItem_def Let_def)

lemma updateOrbitItem_keeps_rotation:
  "orientPolicy item = PolicyNone \<or> (orientPolicy item = PolicyAuto \<and> 0 < spinRpm item) \<Longrightarrow>
   rotation (updateOrbitItem item e st h) = rotation (st h)"
  by (auto simp: updateOrbitItem_def Let_def)

lemma updateOrbitItem_cong:
  "st' (o_sprite item) = st (o_sprite item) \<Longrightarrow>
   updateOrbitItem item e st' (o_sprite item) = updateOrbitItem item e st (o_sprite item)"
  by (simp add: updateOrbitItem_def Let_def)

lemma tickOrbitItems_other: "h \<notin> o_sprite ` set xs \<Longrightarrow> tickOrbitItems xs e st h = st h"
  by (induction xs arbitrary: st) (auto simp: updateOrbitItem_other)

lemma tickOrbitItems_item:
  "distinct (map o_sprite xs) \<Longrightarrow> item \<in> set xs \<Longrightarrow>
   tickOrbitItems xs e st (o_sprite item) = updateOrbitItem item e st (o_sprite item)"
proof (induction xs arbitrary: st)
  case Nil
  then show ?case by simp
next
  case (Cons x xs)
  show ?case
  proof (cases "item = x")
    case True
    with Cons.prems have "o_sprite item \<notin> o_sprite ` set xs" by auto
    with True show ?thesis by (simp add: tickOrbitItems_other)
  next
    case False
    with Cons.prems have mem: "item \<in> set xs" and d: "distinct (map o_sprite xs)"
      and nx: "o_sprite x \<notin> o_sprite ` set xs" by auto
    from mem nx have ne: "o_sprite item \<noteq> o_sprite x" by (metis image_eqI)
    have "tickOrbitItems xs e (updateOrbitItem x e st) (o_sprite item)
          = updateOrbitItem item e (updateOrbitItem x e st) (o_sprite item)"
      using Cons.IH [OF d mem] .
    also have "\<dots> = updateOrbitItem item e st (o_sprite item)"
      using ne by (intro updateOrbitItem_cong) (simp add: updateOrbitItem_other)
    finally show ?thesis by simp
  qed
qed

lemma tickOrbitItems_keeps_rotation:
  "\<forall>i \<in> set xs. o_sprite i = h \<longrightarrow>
      orientPolicy i = PolicyNone \<or> (orientPolicy i = PolicyAuto \<and> 0 < spinRpm i) \<Longrightarrow>
   rotation (tickOrbitItems xs e st h) = rotation (st h)"
proof (induction xs arbitrary: st)
  case Nil
  then show ?case by simp
next
  case (Cons x xs)
  have "rotation (updateOrbitItem x e st h) = rotation (st h)"
  proof (cases "o_sprite x = h")
    case True
    with Cons.prems show ?thesis by (intro updateOrbitItem_keeps_rotation) simp
  next
    case False
    then show ?thesis by (simp add: updateOrbitItem_other)
  qed
  with Cons show ?case by simp
qed

lemma Orbit_tick_items: "op_items (fst (Orbit_tick d ps)) = op_items (fst ps)"
  by (simp add: Orbit_tick_def Let_def)

lemma Orbit_tick_elapsed:
  "op_items (fst ps) \<noteq> [] \<Longrightarrow> op_elapsedTime (fst (Orbit_tick d ps)) = op_elapsedTime (fst ps) + d"
  by (simp add: Orbit_tick_def Let_def)

lemma Orbit_tick_store:
  "op_items (fst ps) \<noteq> [] \<Longrightarrow>
   snd (Orbit_tick d ps) = tickOrbitItems (op_items (fst ps)) (op_elapsedTime (fst ps) + d) (snd ps)"
  by (simp add: Orbit_tick_def Let_def)

lemma Orbit_tick_empty: "op_items (fst ps) = [] \<Longrightarrow> Orbit_tick d ps = ps"
  by (simp add: Orbit_tick_def Let_def)

lemma Orbit_ticks_items: "op_items (fst (Orbit_ticks ds ps)) = op_items (fst ps)"
  unfolding Orbit_ticks_def
  by (induction ds arbitrary: ps) (simp_all add: Orbit_tick_items)

lemma Orbit_ticks_elapsed:
  "op_items (fst ps) \<noteq> [] \<Longrightarrow>
   op_elapsedTime (fst (Orbit_ticks ds ps)) = op_elapsedTime (fst ps) + sum_list ds"
  unfolding Orbit_ticks_def
  by (induction ds arbitrary: ps) (simp_all add: Orbit_tick_items Orbit_tick_elapsed)

lemma Orbit_ticks_keeps_rotation:
  "\<forall>i \<in> set (op_items (fst ps)). o_sprite i = h \<longrightarrow>
      orientPolicy i = PolicyNone \<or> (orientPolicy i = PolicyAuto \<and> 0 < spinRpm i) \<Longrightarrow>
   rotation (snd (Orbit_ticks ds ps) h) = rotation (snd ps h)"
proof (induction ds arbitrary: ps)
  case Nil
  then show ?case by (simp add: Orbit_ticks_def)
next
  case (Cons d ds)
  let ?q = "Orbit_tick d ps"
  have it: "op_items (fst ?q) = op_items (fst ps)" by (rule Orbit_tick_items)
  have "rotation (snd (Orbit_ticks ds ?q) h) = rotation (snd ?q h)"
    using Cons.prems by (intro Cons.IH) (simp add: it)
  also have "\<dots> = rotation (snd ps h)"
  proof (cases "op_items (fst ps) = []")
    case True
    then show ?thesis by (simp add: Orbit_tick_empty)
  next
    case False
    with Cons.prems show ?thesis
      by (simp add: Orbit_tick_store tickOrbitItems_keeps_rotation)
  qed
  finally show ?case by (simp add: Orbit_ticks_def)
qed

lemma Orbit_ticks_oriented:
  assumes "distinct (map o_sprite (op_items (fst ps)))" "item \<in> set (op_items (fst ps))"
    "o_active item" "0 < radius item"
    "orientPolicy item = PolicyOverride \<or> (orientPolicy item = PolicyAuto \<and> spinRpm item \<le> 0)"
    "ds \<noteq> []"
  shows "rotation (snd (Orbit_ticks ds ps) (o_sprite item))
         = js_add (orbitAngle item (op_elapsedTime (fst ps) + sum_list ds)) (Fin (orientRadians item))"
proof -
  from assms(6) obtain ds' d where ds: "ds = ds' @ [d]"
    by (cases ds rule: rev_cases) auto
  let ?q = "Orbit_ticks ds' ps"
  have it: "op_items (fst ?q) = op_items (fst ps)" by (rule Orbit_ticks_items)
  from assms(2) have ne: "op_items (fst ps) \<noteq> []" by auto
  have el: "op_elapsedTime (fst ?q) = op_elapsedTime (fst ps) + sum_list ds'"
    using ne by (rule Orbit_ticks_elapsed)
  have "Orbit_ticks ds ps = Orbit_tick d ?q"
    by (simp add: ds Orbit_ticks_def)
  then have "snd (Orbit_ticks ds ps)
      = tickOrbitItems (op_items (fst ps)) (op_elapsedTime (fst ?q) + d) (snd ?q)"
    using ne it by (simp add: Orbit_tick_store)
  then show ?thesis
    using assms(1-5) el
    by (simp add: tickOrbitItems_item updateOrbitItem_oriented ds add.assoc)
qed

text \<open>
  Claim C3, as amended.  The orbit update of an item that is active and has a
  positive radius sets the rotation of its drawable to the angle plus the
  orientation offset when the policy is \<open>override\<close>, or \<open>auto\<close> with a snapshot
  spin rate of at most 0, and leaves the rotation as it was when the policy is
  \<open>none\<close>, or \<open>auto\<close> with a positive snapshot spin rate.  The angle is that of
  the per-frame formula and the sum is that of the language: for a finite base
  phase \<open>ph\<close> the rotation written is the finite number
  \<open>ph + direction * radPerSecond * elapsed + orientOffset\<close>.  With the latter
  policies the rotation is left as it was for every item, over any number of
  frames.  An item that is inactive or has a radius of at most 0 is skipped:
  the update changes nothing, whatever the policy.  Over frames, an active item
  of positive radius with an orienting policy, whose drawable no other item
  shares, has the rotation of the formula at the accumulated elapsed time.
\<close>

theorem orbit_orientation_policy:
  "(o_active item \<and> 0 < radius item \<longrightarrow>
      (orientPolicy item = PolicyOverride \<or> (orientPolicy item = PolicyAuto \<and> spinRpm item \<le> 0) \<longrightarrow>
         rotation (updateOrbitItem item e st (o_sprite item))
           = js_add (orbitAngle item e) (Fin (orientRadians item))
         \<and> (basePhase item = Fin ph \<longrightarrow>
              rotation (updateOrbitItem item e st (o_sprite item))
                = Fin (ph + o_direction item * o_radPerSecond item * e + orientRadians item)))
      \<and> (orientPolicy item = PolicyNone \<or> (orientPolicy item = PolicyAuto \<and> 0 < spinRpm item) \<longrightarrow>
         rotation (updateOrbitItem item e st (o_sprite item)) = rotation (st (o_sprite item))))
   \<and> (orientPolicy item = PolicyNone \<or> (orientPolicy item = PolicyAuto \<and> 0 < spinRpm item) \<longrightarrow>
        rotation (updateOrbitItem item e st h) = rotation (st h))
   \<and> (\<not> o_active item \<or> radius item \<le> 0 \<longrightarrow> updateOrbitItem item e st = st)
   \<and> ((\<forall>i \<in> set (op_items p). o_sprite i = h \<longrightarrow>
          orientPolicy i = PolicyNone \<or> (orientPolicy i = PolicyAuto \<and> 0 < spinRpm i)) \<longrightarrow>
        rotation (snd (Orbit_ticks ds (p, st)) h) = rotation (st h))
   \<and> (distinct (map o_sprite (op_items p)) \<and> item \<in> set (op_items p)
        \<and> o_active item \<and> 0 < radius item
        \<and> (orientPolicy item = PolicyOverride \<or> (orientPolicy item = PolicyAuto \<and> spinRpm item \<le> 0))
        \<and> ds \<noteq> [] \<longrightarrow>
        rotation (snd (Orbit_ticks ds (p, st)) (o_sprite item))
          = js_add (orbitAngle item (op_elapsedTime p + sum_list ds)) (Fin (orientRadians item)))"
proof -
  have a: "rotation (snd (Orbit_ticks ds (p, st)) h) = rotation (st h)"
    if "\<forall>i \<in> set (op_items p). o_sprite i = h \<longrightarrow>
          orientPolicy i = PolicyNone \<or> (orientPolicy i = PolicyAuto \<and> 0 < spinRpm i)"
    using Orbit_ticks_keeps_rotation [of "(p, st)" h ds] that by simp
  have b: "rotation (snd (Orbit_ticks ds (p, st)) (o_sprite item))
          = js_add (orbitAngle item (op_elapsedTime p + sum_list ds)) (Fin (orientRadians item))"
    if "distinct (map o_sprite (op_items p))" "item \<in> set (op_items p)" "o_active item" "0 < radius item"
      "orientPolicy item = PolicyOverride \<or> (orientPolicy item = PolicyAuto \<and> spinRpm item \<le> 0)"
      "ds \<noteq> []"
    using Orbit_ticks_oriented [of "(p, st)" item ds] that by simp
  have f: "rotation (updateOrbitItem item e st (o_sprite item))
                = Fin (ph + o_direction item * o_radPerSecond item * e + orientRadians item)"
    if "o_active item" "0 < radius item"
      "orientPolicy item = PolicyOverride \<or> (orientPolicy item = PolicyAuto \<and> spinRpm item \<le> 0)"
      "basePhase item = Fin ph"
    using updateOrbitItem_oriented [OF that(1,2,3), of e st] that(4)
    by (simp add: orbitAngle_def)
  show ?thesis
    using updateOrbitItem_oriented [of item e st] updateOrbitItem_keeps_rotation [of item e st]
      updateOrbitItem_inert [of item e st] a b f
    by blast
qed

theorem orbit_orientation_policy_witness:
  "o_active \<lparr> o_sprite = 0, o_layerId = ''moon'', o_cfg = createDefaultLayer ''moon'',
       o_direction = 1, o_radPerSecond = pi / 3, centerPercent = (50, 50),
       centerPixels = (512, 512), radius = 100, basePhase = Fin 1, orientPolicy = PolicyOverride,
       orientRadians = 2, spinRpm = 0, o_active = True \<rparr>
   \<and> rotation (updateOrbitItem
       \<lparr> o_sprite = 0, o_layerId = ''moon'', o_cfg = createDefaultLayer ''moon'',
         o_direction = 1, o_radPerSecond = pi / 3, centerPercent = (50, 50),
         centerPixels = (512, 512), radius = 100, basePhase = Fin 1, orientPolicy = PolicyOverride,
         orientRadians = 2, spinRpm = 0, o_active = True \<rparr> 3 freshStore 0) = Fin (1 + pi + 2)
   \<and> rotation (snd (Orbit_ticks [1, 2]
        (\<lparr> op_items = [\<lparr> o_sprite = 0, o_layerId = ''moon'', o_cfg = createDefaultLayer ''moon'',
             o_direction = 1, o_radPerSecond = pi / 3, centerPercent = (50, 50),
             centerPixels = (512, 512), radius = 100, basePhase = Fin 1, orientPolicy = PolicyOverride,
             orientRadians = 2, spinRpm = 0, o_active = True \<rparr>], op_elapsedTime = 0 \<rparr>,
         freshStore)) 0) = Fin (1 + pi + 2)
   \<and> rotation (snd (Orbit_ticks [1, 2]
        (\<lparr> op_items = [\<lparr> o_sprite = 0, o_layerId = ''moon'', o_cfg = createDefaultLayer ''moon'',
             o_direction = 1, o_radPerSecond = pi / 3, centerPercent = (50, 50),
             centerPixels = (512, 512), radius = 100, basePhase = Fin 1, orientPolicy = PolicyOverride,
             orientRadians = 2, spinRpm = 0, o_active = True \<rparr>], op_elapsedTime = 0 \<rparr>,
         freshStore)) 1) = Fin 0"
  using orbit_orientation_policy
    [of "\<lparr> o_sprite = 0, o_layerId = ''moon'', o_cfg = createDefaultLayer ''moon'',
           o_direction = 1, o_radPerSecond = pi / 3, centerPercent = (50, 50),
           centerPixels = (512, 512), radius = 100, basePhase = Fin 1, orientPolicy = PolicyOverride,
           orientRadians = 2, spinRpm = 0, o_active = True \<rparr>"
        3 freshStore 1 1
        "\<lparr> op_items = [\<lparr> o_sprite = 0, o_layerId = ''moon'', o_cfg = createDefaultLayer ''moon'',
             o_direction = 1, o_radPerSecond = pi / 3, centerPercent = (50, 50),
             centerPixels = (512, 512), radius = 100, basePhase = Fin 1, orientPolicy = PolicyOverride,
             orientRadians = 2, spinRpm = 0, o_active = True \<rparr>], op_elapsedTime = 0 \<rparr>"
        "[1, 2]"]
  by (simp add: orbitAngle_def freshStore_def newSprite_def)

text \<open>
  Claim C3 as stated fails for an item that is not active: after
  \<open>updateRPM\<close> with a rate of 0 the item of a layer with policy \<open>override\<close> is
  inactive, and a tick leaves the rotation of its drawable at 0, while the angle
  plus the orientation offset is 1.
\<close>

theorem orbit_orientation_counterexample:
  "op_items (Orbit_updateRPM ''moon'' (JNumber (Fin 0))
      \<lparr> op_items = [\<lparr> o_sprite = 0, o_layerId = ''moon'', o_cfg = createDefaultLayer ''moon'',
           o_direction = 1, o_radPerSecond = pi / 3, centerPercent = (50, 50),
           centerPixels = (512, 512), radius = 100, basePhase = Fin 1, orientPolicy = PolicyOverride,
           orientRadians = 0, spinRpm = 0, o_active = True \<rparr>], op_elapsedTime = 0 \<rparr>)
     = [\<lparr> o_sprite = 0, o_layerId = ''moon'', o_cfg = createDefaultLayer ''moon'',
          o_direction = 1, o_radPerSecond = 0, centerPercent = (50, 50),
          centerPixels = (512, 512), radius = 100, basePhase = Fin 1, orientPolicy = PolicyOverride,
          orientRadians = 0, spinRpm = 0, o_active = False \<rparr>]
   \<and> orientPolicy \<lparr> o_sprite = 0, o_layerId = ''moon'', o_cfg = createDefaultLayer ''moon'',
          o_direction = 1, o_radPerSecond = 0, centerPercent = (50, 50),
          centerPixels = (512, 512), radius = 100, basePhase = Fin 1, orientPolicy = PolicyOverride,
          orientRadians = 0, spinRpm = 0, o_active = False \<rparr> = PolicyOverride
   \<and> rotation (updateOrbitItem
        \<lparr> o_sprite = 0, o_layerId = ''moon'', o_cfg = createDefaultLayer ''moon'',
          o_direction = 1, o_radPerSecond = 0, centerPercent = (50, 50),
          centerPixels = (512, 512), radius = 100, basePhase = Fin 1, orientPolicy = PolicyOverride,
          orientRadians = 0, spinRpm = 0, o_active = False \<rparr> 1 freshStore 0) = Fin 0
   \<and> js_add
        (orbitAngle \<lparr> o_sprite = 0, o_layerId = ''moon'', o_cfg = createDefaultLayer ''moon'',
          o_direction = 1, o_radPerSecond = 0, centerPercent = (50, 50),
          centerPixels = (512, 512), radius = 100, basePhase = Fin 1, orientPolicy = PolicyOverride,
          orientRadians = 0, spinRpm = 0, o_active = False \<rparr> 1)
        (Fin (orientRadians \<lparr> o_sprite = 0, o_layerId = ''moon'', o_cfg = createDefaultLayer ''moon'',
          o_direction = 1, o_radPerSecond = 0, centerPercent = (50, 50),
          centerPixels = (512, 512), radius = 100, basePhase = Fin 1, orientPolicy = PolicyOverride,
          orientRadians = 0, spinRpm = 0, o_active = False \<rparr>)) = Fin 1
   \<and> rotation (snd (Orbit_tick 1
        (Orbit_updateRPM ''moon'' (JNumber (Fin 0))
           \<lparr> op_items = [\<lparr> o_sprite = 0, o_layerId = ''moon'', o_cfg = createDefaultLayer ''moon'',
                o_direction = 1, o_radPerSecond = pi / 3, centerPercent = (50, 50),
                centerPixels = (512, 512), radius = 100, basePhase = Fin 1, orientPolicy = PolicyOverride,
                orientRadians = 0, spinRpm = 0, o_active = True \<rparr>], op_elapsedTime = 0 \<rparr>,
         freshStore)) 0) = Fin 0"
  by (simp add: Orbit_updateRPM_def Orbit_tick_def updateOrbitItem_def orbitAngle_def
      clampRpm60_Fin freshStore_def newSprite_def)

subsection \<open>The spin-rate snapshot of orbit items\<close>

lemma hypot_zero_right: "hypot a 0 = \<bar>a\<bar>"
  by (simp add: hypot_def)

lemma hypot_zero_left: "hypot 0 b = \<bar>b\<bar>"
  by (simp add: hypot_def)

lemma hypot_nonneg: "0 \<le> hypot a b"
  by (simp add: hypot_def)

lemma hypot_pos_iff: "0 < hypot a b \<longleftrightarrow> a \<noteq> 0 \<or> b \<noteq> 0"
proof -
  have "0 < a\<^sup>2 + b\<^sup>2 \<longleftrightarrow> a \<noteq> 0 \<or> b \<noteq> 0"
    by (metis not_sum_power2_lt_zero sum_power2_eq_zero_iff less_eq_real_def linorder_not_less)
  then show ?thesis by (simp add: hypot_def)
qed

lemma createOrbitItem_snapshot:
  "createOrbitItem layer m = Some item \<Longrightarrow>
   spinRpm item = (case m (layer_sprite layer) of None \<Rightarrow> 0 | Some r \<Rightarrow> r)"
  by (auto simp: createOrbitItem_def Let_def split: if_splits)

lemma buildOrbitItems_snapshot_empty:
  "item \<in> set (buildOrbitItems layers Map.empty) \<Longrightarrow> spinRpm item = 0"
  by (induction layers) (auto split: option.splits dest: createOrbitItem_snapshot)

text \<open>
  Claim C4 does not hold of the code.  \<open>OrbitProcessor.init\<close> builds its items
  from a map that it creates empty, so every item has the snapshot 0, whatever
  the spin rate of its layer.  For a layer at (70%, 50%) with a spin rate of 30
  and an orbit rate of 10 the Spin processor records 30 for the drawable and the
  orbit item has the snapshot 0; built from the map of the Spin processor, the
  item would have the snapshot 30.
\<close>

theorem orbit_snapshot_ignores_spin:
  "(item \<in> set (op_items (Orbit_init layers)) \<longrightarrow> spinRpm item = 0)
   \<and> clampRpm60 (spinRPM ((createDefaultLayer ''moon'')
         \<lparr> position := Some (70, 50), spinRPM := JNumber (Fin 30), orbitRPM := JNumber (Fin 10),
           orbitOrientPolicy := Some PolicyAuto \<rparr>)) = 30
   \<and> rpmBySprite (SpinL_init freshStore
         [builtLayer 0 ((createDefaultLayer ''moon'')
            \<lparr> position := Some (70, 50), spinRPM := JNumber (Fin 30), orbitRPM := JNumber (Fin 10),
              orbitOrientPolicy := Some PolicyAuto \<rparr>)]) 0 = Some 30
   \<and> map spinRpm (op_items (Orbit_init
         [builtLayer 0 ((createDefaultLayer ''moon'')
            \<lparr> position := Some (70, 50), spinRPM := JNumber (Fin 30), orbitRPM := JNumber (Fin 10),
              orbitOrientPolicy := Some PolicyAuto \<rparr>)])) = [0]
   \<and> map spinRpm (buildOrbitItems
         [builtLayer 0 ((createDefaultLayer ''moon'')
            \<lparr> position := Some (70, 50), spinRPM := JNumber (Fin 30), orbitRPM := JNumber (Fin 10),
              orbitOrientPolicy := Some PolicyAuto \<rparr>)]
         (rpmBySprite (SpinL_init freshStore
            [builtLayer 0 ((createDefaultLayer ''moon'')
               \<lparr> position := Some (70, 50), spinRPM := JNumber (Fin 30), orbitRPM := JNumber (Fin 10),
                 orbitOrientPolicy := Some PolicyAuto \<rparr>)]))) = [30]"
proof -
  let ?cfg = "(createDefaultLayer ''moon'')
         \<lparr> position := Some (70, 50), spinRPM := JNumber (Fin 30), orbitRPM := JNumber (Fin 10),
           orbitOrientPolicy := Some PolicyAuto \<rparr>"
  let ?L = "builtLayer 0 ?cfg"
  have a: "item \<in> set (op_items (Orbit_init layers)) \<longrightarrow> spinRpm item = 0"
    by (simp add: Orbit_init_def buildOrbitItems_snapshot_empty)
  have b: "clampRpm60 (spinRPM ?cfg) = 30"
    by (simp add: createDefaultLayer_def clampRpm60_Fin)
  have c: "rpmBySprite (SpinL_init freshStore [?L]) = [0 \<mapsto> 30]"
    by (simp add: SpinL_init_def buildSpinSystem_def createSpinConfig_def builtLayer_def
        createDefaultLayer_def clampRpm60_Fin Let_def)
  have ex: "\<exists>it. createOrbitItem ?L m = Some it" for m
    by (simp add: createOrbitItem_def createOrbitConfig_def builtLayer_def createDefaultLayer_def
        clampRpm60_Fin configuredCoords_def percentToStageCoords_def projectToRectBorder_def
        STAGE_WIDTH_def STAGE_HEIGHT_def clamp_def hypot_zero_right Let_def)
  have d: "map spinRpm (buildOrbitItems [?L] m) = [case m 0 of None \<Rightarrow> 0 | Some r \<Rightarrow> r]" for m
  proof -
    from ex [of m] obtain it where it: "createOrbitItem ?L m = Some it" by blast
    from createOrbitItem_snapshot [OF it] have "spinRpm it = (case m 0 of None \<Rightarrow> 0 | Some r \<Rightarrow> r)"
      by (simp add: builtLayer_def)
    with it show ?thesis by simp
  qed
  have e: "map spinRpm (op_items (Orbit_init [?L])) = [0]"
    using d [of Map.empty] by (simp add: Orbit_init_def Let_def)
  have f: "map spinRpm (buildOrbitItems [?L] (rpmBySprite (SpinL_init freshStore [?L]))) = [30]"
    using d [of "[0 \<mapsto> 30]"] by (simp only: c) simp
  from a b c e f show ?thesis by simp
qed

theorem orbit_snapshot_ignores_spin_witness:
  "\<lparr> o_sprite = 0, o_layerId = ''moon'',
      o_cfg = (createDefaultLayer ''moon'') \<lparr> position := Some (70, 50), orbitRPM := JNumber (Fin 10) \<rparr>,
      o_direction = 1, o_radPerSecond = 10 * pi / 30, centerPercent = (50, 50),
      centerPixels = (512, 512), radius = 1024 / 5, basePhase = Fin 0, orientPolicy = PolicyNone,
      orientRadians = 0, spinRpm = 0, o_active = True \<rparr>
     \<in> set (op_items (Orbit_init
         [builtLayer 0 ((createDefaultLayer ''moon'') \<lparr> position := Some (70, 50), orbitRPM := JNumber (Fin 10) \<rparr>)]))
   \<and> map spinRpm (op_items (Orbit_init
         [builtLayer 0 ((createDefaultLayer ''moon'')
            \<lparr> position := Some (70, 50), spinRPM := JNumber (Fin 30), orbitRPM := JNumber (Fin 10),
              orbitOrientPolicy := Some PolicyAuto \<rparr>)])) = [0]"
proof -
  have "op_items (Orbit_init
         [builtLayer 0 ((createDefaultLayer ''moon'') \<lparr> position := Some (70, 50), orbitRPM := JNumber (Fin 10) \<rparr>)])
      = [\<lparr> o_sprite = 0, o_layerId = ''moon'',
      o_cfg = (createDefaultLayer ''moon'') \<lparr> position := Some (70, 50), orbitRPM := JNumber (Fin 10) \<rparr>,
      o_direction = 1, o_radPerSecond = 10 * pi / 30, centerPercent = (50, 50),
      centerPixels = (512, 512), radius = 1024 / 5, basePhase = Fin 0, orientPolicy = PolicyNone,
      orientRadians = 0, spinRpm = 0, o_active = True \<rparr>]"
    by (simp add: Orbit_init_def createOrbitItem_def createOrbitConfig_def builtLayer_def
        createDefaultLayer_def clampRpm60_Fin configuredCoords_def percentToStageCoords_def
        projectToRectBorder_def STAGE_WIDTH_def STAGE_HEIGHT_def clamp_def hypot_zero_right
        finiteNumber_def atan2_def toRad_def normDeg_def jsrem_def trunc_def Let_def)
  then show ?thesis
    using orbit_snapshot_ignores_spin [of _ "[builtLayer 0 ((createDefaultLayer ''moon'') \<lparr> position := Some (70, 50), orbitRPM := JNumber (Fin 10) \<rparr>)]"]
    by simp
qed

subsection \<open>Alpha written by the effect processor\<close>



























subsection \<open>Border projection\<close>

lemma hd_insort_key:
  "hd (insort_key f x ys) = (if ys = [] then x else if f x \<le> f (hd ys) then x else hd ys)"
  by (cases ys) simp_all

lemma sort_key_nonempty: "xs \<noteq> [] \<Longrightarrow> sort_key f xs \<noteq> []"
  by (metis length_0_conv length_sort)

lemma hd_sort_key_arg_min: "xs \<noteq> [] \<Longrightarrow> hd (sort_key f xs) = arg_min_list f xs"
proof (induction xs)
  case Nil
  then show ?case by simp
next
  case (Cons x xs)
  show ?case
  proof (cases xs)
    case Nil
    then show ?thesis by simp
  next
    case (Cons y zs)
    then have ne: "sort_key f xs \<noteq> []" by (intro sort_key_nonempty) simp
    have "hd (sort_key f (x # xs)) = hd (insort_key f x (sort_key f xs))"
      by simp
    also have "\<dots> = (if f x \<le> f (hd (sort_key f xs)) then x else hd (sort_key f xs))"
      using ne by (simp only: hd_insort_key if_False)
    also have "\<dots> = arg_min_list f (x # xs)"
      using Cons.IH Cons by (simp add: Let_def)
    finally show ?thesis .
  qed
qed

lemma hd_sort_key_min:
  assumes "xs \<noteq> []"
  shows "hd (sort_key f xs) \<in> set xs \<and> (\<forall>y \<in> set xs. f (hd (sort_key f xs)) \<le> f y)"
proof -
  let ?s = "sort_key f xs"
  from assms have ne: "?s \<noteq> []" by (rule sort_key_nonempty)
  then obtain a as where s: "?s = a # as" by (cases ?s) auto
  have "sorted (map f ?s)" by (rule sorted_sort_key)
  with s have "\<forall>y \<in> set ?s. f a \<le> f y" by auto
  moreover have "set ?s = set xs" by simp
  moreover have "a \<in> set ?s" using s by simp
  ultimately show ?thesis using s by auto
qed

lemma epsilon_pos: "0 < epsilon"
  by (simp add: epsilon_def)

lemma filter_pair: "filter P [a, b] = (if P a then [a] else []) @ (if P b then [b] else [])"
  by simp

lemma candidates_eq_spec:
  assumes "px - cx = 0 \<or> \<bar>px - cx\<bar> > epsilon" "py - cy = 0 \<or> \<bar>py - cy\<bar> > epsilon"
  shows "candidates cx cy px py w h = spec_intersections cx cy px py w h"
proof -
  have x: "(\<bar>px - cx\<bar> > epsilon) = (px - cx \<noteq> 0)"
    using assms(1) epsilon_pos by auto
  have y: "(\<bar>py - cy\<bar> > epsilon) = (py - cy \<noteq> 0)"
    using assms(2) epsilon_pos by auto
  show ?thesis
    unfolding candidates_def spec_intersections_def Let_def x y
    by (simp only: filter_pair fst_conv snd_conv)
qed

lemma project_inside:
  "0 \<le> px \<Longrightarrow> px \<le> w \<Longrightarrow> 0 \<le> py \<Longrightarrow> py \<le> h \<Longrightarrow> projectToRectBorder cx cy px py w h = (px, py)"
  by (simp add: projectToRectBorder_def)

lemma project_outside:
  assumes "\<not> (0 \<le> px \<and> px \<le> w \<and> 0 \<le> py \<and> py \<le> h)" "px \<noteq> cx \<or> py \<noteq> cy"
  shows "projectToRectBorder cx cy px py w h =
     (if candidates cx cy px py w h = [] then (clamp px 0 w, clamp py 0 h)
      else snd (hd (sort_key fst (candidates cx cy px py w h))))"
  using assms by (auto simp: projectToRectBorder_def Let_def)

lemma project_center:
  "\<not> (0 \<le> px \<and> px \<le> w \<and> 0 \<le> py \<and> py \<le> h) \<Longrightarrow> px = cx \<Longrightarrow> py = cy \<Longrightarrow>
   projectToRectBorder cx cy px py w h = (px, py)"
  by (auto simp: projectToRectBorder_def)

lemma project_agrees:
  assumes "px - cx = 0 \<or> \<bar>px - cx\<bar> > epsilon" "py - cy = 0 \<or> \<bar>py - cy\<bar> > epsilon"
    "px \<noteq> cx \<or> py \<noteq> cy \<or> (0 \<le> px \<and> px \<le> w \<and> 0 \<le> py \<and> py \<le> h)"
  shows "projectToRectBorder cx cy px py w h = spec_projectToRectBorder cx cy px py w h"
proof (cases "0 \<le> px \<and> px \<le> w \<and> 0 \<le> py \<and> py \<le> h")
  case True
  then show ?thesis by (simp add: projectToRectBorder_def spec_projectToRectBorder_def)
next
  case False
  with assms(3) have ne: "px \<noteq> cx \<or> py \<noteq> cy" by blast
  have c: "candidates cx cy px py w h = spec_intersections cx cy px py w h"
    using assms(1,2) by (rule candidates_eq_spec)
  show ?thesis
    by (simp add: False project_outside [OF False ne] spec_projectToRectBorder_def c Let_def
        hd_sort_key_arg_min)
qed

lemma project_example_inside: "projectToRectBorder 512 512 512 50 1024 1024 = (512, 50)"
  by (simp add: projectToRectBorder_def)

lemma project_example_top: "projectToRectBorder 512 512 512 (- 100) 1024 1024 = (512, 0)"
  by (simp add: projectToRectBorder_def candidates_def epsilon_def Let_def)

lemma radius_example_inside:
  "map radius (buildOrbitItems
      [builtLayer 0 ((createDefaultLayer ''moon'')
         \<lparr> position := Some (50, 4.8828125), orbitRPM := JNumber (Fin 10) \<rparr>)] m) = [462]"
  by (simp add: createOrbitItem_def createOrbitConfig_def builtLayer_def
      createDefaultLayer_def clampRpm60_Fin configuredCoords_def percentToStageCoords_def
      projectToRectBorder_def STAGE_WIDTH_def STAGE_HEIGHT_def clamp_def hypot_zero_left Let_def)

lemma radius_example_top:
  "map radius (buildOrbitItems
      [builtLayer 0 ((createDefaultLayer ''moon'')
         \<lparr> position := Some (50, - 9.765625), orbitRPM := JNumber (Fin 10) \<rparr>)] m) = [512]"
  by (simp add: createOrbitItem_def createOrbitConfig_def builtLayer_def
      createDefaultLayer_def clampRpm60_Fin configuredCoords_def percentToStageCoords_def
      projectToRectBorder_def candidates_def epsilon_def STAGE_WIDTH_def STAGE_HEIGHT_def
      clamp_def hypot_zero_left Let_def)

text \<open>
  Claim C1, as amended.  A point inside the rectangle is returned unchanged.
  \<open>projectToRectBorder\<close> agrees with the reference algorithm of the specification
  on every input whose direction components \<open>px - cx\<close> and \<open>py - cy\<close> are each
  either 0 or larger than \<open>1e-6\<close> in absolute value and, for a point outside, not
  both 0.  In general, for a point outside that is not the center, only the
  edges across a direction component larger than \<open>1e-6\<close> in absolute value are
  intersected: with no valid intersection among those the point is returned
  clamped into the rectangle, and otherwise the result is a valid intersection
  whose parameter is the smallest.  A point outside that is the center is
  returned unchanged.  With center (512, 512) on the 1024 by 1024 stage the
  point (512, 50) is returned unchanged and the radius is 462, and the point
  (512, -100) is projected to (512, 0) with radius 512; the orbit items of layers
  placed at these points have these radii.
\<close>

theorem border_projection_reference:
  "(0 \<le> px \<and> px \<le> w \<and> 0 \<le> py \<and> py \<le> h \<longrightarrow> projectToRectBorder cx cy px py w h = (px, py))
   \<and> ((px - cx = 0 \<or> \<bar>px - cx\<bar> > epsilon) \<and> (py - cy = 0 \<or> \<bar>py - cy\<bar> > epsilon)
        \<and> (px \<noteq> cx \<or> py \<noteq> cy \<or> (0 \<le> px \<and> px \<le> w \<and> 0 \<le> py \<and> py \<le> h)) \<longrightarrow>
        projectToRectBorder cx cy px py w h = spec_projectToRectBorder cx cy px py w h)
   \<and> (\<not> (0 \<le> px \<and> px \<le> w \<and> 0 \<le> py \<and> py \<le> h) \<and> (px \<noteq> cx \<or> py \<noteq> cy)
        \<and> candidates cx cy px py w h = [] \<longrightarrow>
        projectToRectBorder cx cy px py w h = (clamp px 0 w, clamp py 0 h))
   \<and> (\<not> (0 \<le> px \<and> px \<le> w \<and> 0 \<le> py \<and> py \<le> h) \<and> (px \<noteq> cx \<or> py \<noteq> cy)
        \<and> candidates cx cy px py w h \<noteq> [] \<longrightarrow>
        (\<exists>c \<in> set (candidates cx cy px py w h).
            projectToRectBorder cx cy px py w h = snd c
            \<and> (\<forall>c' \<in> set (candidates cx cy px py w h). fst c \<le> fst c')))
   \<and> (\<not> (0 \<le> px \<and> px \<le> w \<and> 0 \<le> py \<and> py \<le> h) \<and> px = cx \<and> py = cy \<longrightarrow>
        projectToRectBorder cx cy px py w h = (px, py))
   \<and> projectToRectBorder 512 512 512 50 1024 1024 = (512, 50)
   \<and> hypot (512 - 512) (50 - 512) = 462
   \<and> projectToRectBorder 512 512 512 (- 100) 1024 1024 = (512, 0)
   \<and> hypot (512 - 512) (0 - 512) = 512
   \<and> map radius (buildOrbitItems
        [builtLayer 0 ((createDefaultLayer ''moon'')
           \<lparr> position := Some (50, 4.8828125), orbitRPM := JNumber (Fin 10) \<rparr>)] m) = [462]
   \<and> map radius (buildOrbitItems
        [builtLayer 0 ((createDefaultLayer ''moon'')
           \<lparr> position := Some (50, - 9.765625), orbitRPM := JNumber (Fin 10) \<rparr>)] m) = [512]"
proof -
  let ?inside = "0 \<le> px \<and> px \<le> w \<and> 0 \<le> py \<and> py \<le> h"
  let ?cs = "candidates cx cy px py w h"
  have a: "?inside \<longrightarrow> projectToRectBorder cx cy px py w h = (px, py)"
    by (simp add: project_inside)
  have b: "(px - cx = 0 \<or> \<bar>px - cx\<bar> > epsilon) \<and> (py - cy = 0 \<or> \<bar>py - cy\<bar> > epsilon)
        \<and> (px \<noteq> cx \<or> py \<noteq> cy \<or> ?inside) \<longrightarrow>
        projectToRectBorder cx cy px py w h = spec_projectToRectBorder cx cy px py w h"
    using project_agrees [of px cx py cy w h] by blast
  have c: "\<not> ?inside \<and> (px \<noteq> cx \<or> py \<noteq> cy) \<and> ?cs = [] \<longrightarrow>
        projectToRectBorder cx cy px py w h = (clamp px 0 w, clamp py 0 h)"
    using project_outside [of px w py h cx cy] by auto
  have d: "\<exists>c \<in> set ?cs. projectToRectBorder cx cy px py w h = snd c \<and> (\<forall>c' \<in> set ?cs. fst c \<le> fst c')"
    if o: "\<not> ?inside" and n: "px \<noteq> cx \<or> py \<noteq> cy" and ne: "?cs \<noteq> []"
  proof -
    have "projectToRectBorder cx cy px py w h = snd (hd (sort_key fst ?cs))"
      using ne by (simp add: project_outside [OF o n])
    with hd_sort_key_min [OF ne, of fst] show ?thesis by blast
  qed
  have e: "\<not> ?inside \<and> px = cx \<and> py = cy \<longrightarrow> projectToRectBorder cx cy px py w h = (px, py)"
    using project_center [of px w py h cx cy] by blast
  have f: "hypot (512 - 512) (50 - 512) = 462" "hypot (512 - 512) (0 - 512) = 512"
    by (simp_all add: hypot_zero_left)
  from a b c d e f project_example_inside project_example_top
    radius_example_inside [of m] radius_example_top [of m]
  show ?thesis by blast
qed

theorem border_projection_reference_witness:
  "\<not> (0 \<le> (1536::real) \<and> (1536::real) \<le> 1024 \<and> 0 \<le> (512::real) \<and> (512::real) \<le> 1024)
   \<and> \<bar>1536 - 512\<bar> > epsilon \<and> (512::real) - 512 = 0 \<and> (1536::real) \<noteq> 512
   \<and> candidates 512 512 1536 512 1024 1024 = [(1 / 2, 1024, 512)]
   \<and> spec_projectToRectBorder 512 512 1536 512 1024 1024 = (1024, 512)
   \<and> projectToRectBorder 512 512 1536 512 1024 1024 = (1024, 512)
   \<and> 0 \<le> (512::real) \<and> (512::real) \<le> 1024 \<and> 0 \<le> (50::real) \<and> (50::real) \<le> 1024
   \<and> projectToRectBorder 512 512 512 50 1024 1024 = (512, 50)
   \<and> \<not> (0 \<le> (- 5::real) \<and> (- 5::real) \<le> 1024 \<and> 0 \<le> (- 5::real) \<and> (- 5::real) \<le> 1024)
   \<and> projectToRectBorder (- 5) (- 5) (- 5) (- 5) 1024 1024 = (- 5, - 5)"
proof -
  have c: "candidates 512 512 1536 512 1024 1024 = [(1 / 2, 1024, 512)]"
    by (simp add: candidates_def epsilon_def Let_def)
  have s: "spec_projectToRectBorder 512 512 1536 512 1024 1024 = (1024, 512)"
    by (simp add: spec_projectToRectBorder_def spec_intersections_def Let_def)
  show ?thesis
    using border_projection_reference [of 1536 1024 512 1024 512 512]
      border_projection_reference [of 512 1024 50 1024 512 512]
      border_projection_reference [of "- 5" 1024 "- 5" 1024 "- 5" "- 5"] c s
    by (simp add: epsilon_def)
qed

text \<open>
  Claim C1 as stated fails in two ways.  The point (-5, -5) with itself as
  center lies outside the stage and has no intersection; the reference
  algorithm clamps it to (0, 0), while the code returns it unchanged.  With
  center (1024 - 2e-7, 512) and point (1024 + 3e-7, 512 + 5e-7) the ray meets the
  right edge at parameter 2/5, in (1024, 512 + 2e-7), which the reference
  algorithm returns; both direction components are 5e-7, below the threshold of
  the code, which returns the clamped point (1024, 512 + 5e-7).
\<close>

theorem border_projection_counterexample:
  "projectToRectBorder (- 5) (- 5) (- 5) (- 5) 1024 1024 = (- 5, - 5)
   \<and> spec_projectToRectBorder (- 5) (- 5) (- 5) (- 5) 1024 1024 = (0, 0)
   \<and> (clamp (- 5) 0 1024, clamp (- 5) 0 1024) = (0, 0)
   \<and> spec_intersections (1024 - 2 / 10000000) 512 (1024 + 3 / 10000000) (512 + 5 / 10000000) 1024 1024
       = [(2 / 5, 1024, 512 + 2 / 10000000)]
   \<and> spec_projectToRectBorder (1024 - 2 / 10000000) 512 (1024 + 3 / 10000000) (512 + 5 / 10000000) 1024 1024
       = (1024, 512 + 2 / 10000000)
   \<and> projectToRectBorder (1024 - 2 / 10000000) 512 (1024 + 3 / 10000000) (512 + 5 / 10000000) 1024 1024
       = (1024, 512 + 5 / 10000000)"
proof -
  have a: "projectToRectBorder (- 5) (- 5) (- 5) (- 5) 1024 1024 = (- 5, - 5)"
    by (simp add: projectToRectBorder_def)
  have b: "spec_projectToRectBorder (- 5) (- 5) (- 5) (- 5) 1024 1024 = (0, 0)"
    "(clamp (- 5) 0 1024, clamp (- 5) 0 1024) = (0, 0)"
    by (simp_all add: spec_projectToRectBorder_def spec_intersections_def clamp_def)
  have c: "spec_intersections (1024 - 2 / 10000000) 512 (1024 + 3 / 10000000) (512 + 5 / 10000000) 1024 1024
       = [(2 / 5, 1024, 512 + 2 / 10000000)]"
    by (simp add: spec_intersections_def Let_def)
  have d: "spec_projectToRectBorder (1024 - 2 / 10000000) 512 (1024 + 3 / 10000000) (512 + 5 / 10000000) 1024 1024
       = (1024, 512 + 2 / 10000000)"
    by (simp add: spec_projectToRectBorder_def spec_intersections_def Let_def)
  have e: "projectToRectBorder (1024 - 2 / 10000000) 512 (1024 + 3 / 10000000) (512 + 5 / 10000000) 1024 1024
       = (1024, 512 + 5 / 10000000)"
    by (simp add: projectToRectBorder_def candidates_def epsilon_def clamp_def Let_def)
  from a b c d e show ?thesis by blast
qed

subsection \<open>Recomputing an orbit\<close>

lemma numProp_cx: "numProp obj ''cx'' = NaN"
  by (simp add: numProp_def)

lemma numProp_cy: "numProp obj ''cy'' = NaN"
  by (simp add: numProp_def)

lemma js_add_NaN_right: "js_add a NaN = NaN"
  by (cases a) simp_all

lemma js_mul_NaN_right: "js_mul a NaN = NaN"
  by (cases a) simp_all

lemma js_sub_NaN_right: "js_sub a NaN = NaN"
  by (simp add: js_sub_def js_add_NaN_right)

lemma js_sub_NaN_left: "js_sub NaN b = NaN"
  by (simp add: js_sub_def)

lemma recompute_radius:
  "radius (fst (recomputeOrbitItem item e st))
   = (let c = percentToStageCoords (fst (centerPercent item)) (snd (centerPercent item))
                STAGE_WIDTH STAGE_HEIGHT;
          s = configuredCoords (o_cfg item);
          q = projectToRectBorder (fst c) (snd c) (fst s) (snd s) STAGE_WIDTH STAGE_HEIGHT
      in hypot (fst q - fst c) (snd q - snd c))"
  by (simp add: recomputeOrbitItem_def Let_def)

lemma recompute_frame:
  "o_sprite (fst (recomputeOrbitItem item e st)) = o_sprite item"
  "o_direction (fst (recomputeOrbitItem item e st)) = o_direction item"
  "o_radPerSecond (fst (recomputeOrbitItem item e st)) = o_radPerSecond item"
  "o_active (fst (recomputeOrbitItem item e st)) = o_active item"
  "centerPercent (fst (recomputeOrbitItem item e st)) = centerPercent item"
  "o_cfg (fst (recomputeOrbitItem item e st)) = o_cfg item"
  "centerPixels (fst (recomputeOrbitItem item e st))
     = percentToStageCoords (fst (centerPercent item)) (snd (centerPercent item)) STAGE_WIDTH STAGE_HEIGHT"
  by (simp_all add: recomputeOrbitItem_def Let_def)

lemma recompute_old_angle:
  "js_atan2 (js_sub (pos_y (st (o_sprite item))) (numProp (centerPixels item) ''cy''))
            (js_sub (pos_x (st (o_sprite item))) (numProp (centerPixels item) ''cx'')) = NaN"
  by (simp add: numProp_cx numProp_cy js_sub_NaN_right)

lemma recompute_positive:
  assumes "0 < radius (fst (recomputeOrbitItem item e st))"
  shows "basePhase (fst (recomputeOrbitItem item e st)) = NaN"
    and "pos_x (snd (recomputeOrbitItem item e st) (o_sprite item)) = NaN"
    and "pos_y (snd (recomputeOrbitItem item e st) (o_sprite item)) = NaN"
  using assms
  by (simp_all add: recomputeOrbitItem_def Let_def recompute_old_angle js_sub_NaN_left
      js_add_NaN_right js_mul_NaN_right split: if_splits)

lemma recompute_zero:
  assumes "radius (fst (recomputeOrbitItem item e st)) \<le> 0"
  shows "basePhase (fst (recomputeOrbitItem item e st)) = basePhase item"
    and "snd (recomputeOrbitItem item e st) = st"
  using assms by (simp_all add: recomputeOrbitItem_def Let_def split: if_splits)

lemma recompute_created:
  assumes "createOrbitItem layer m = Some item"
  shows "radius (fst (recomputeOrbitItem item e st)) = radius item \<and> 0 < radius item"
proof -
  from assms have en: "oc_enabled (createOrbitConfig (layer_cfg layer))"
    by (auto simp: createOrbitItem_def Let_def split: if_splits)
  let ?c = "percentToStageCoords (fst (oc_centerPercent (createOrbitConfig (layer_cfg layer))))
              (snd (oc_centerPercent (createOrbitConfig (layer_cfg layer)))) STAGE_WIDTH STAGE_HEIGHT"
  let ?s = "configuredCoords (layer_cfg layer)"
  let ?q = "projectToRectBorder (fst ?c) (snd ?c) (fst ?s) (snd ?s) STAGE_WIDTH STAGE_HEIGHT"
  let ?r = "hypot (fst ?q - fst ?c) (snd ?q - snd ?c)"
  from assms en have pos: "\<not> ?r \<le> 0"
    by (auto simp: createOrbitItem_def Let_def split: if_splits)
  from assms en pos have f: "radius item = ?r"
    "centerPercent item = oc_centerPercent (createOrbitConfig (layer_cfg layer))"
    "o_cfg item = layer_cfg layer"
    by (auto simp: createOrbitItem_def Let_def)
  show ?thesis
    using pos by (simp add: recompute_radius f Let_def)
qed

lemma recompute_again:
  "radius (fst (recomputeOrbitItem (fst (recomputeOrbitItem item e st)) e' st'))
   = radius (fst (recomputeOrbitItem item e st))"
  by (simp add: recompute_radius recompute_frame)

lemma createOrbitItem_phase:
  "createOrbitItem layer m = Some item \<Longrightarrow> isFinite (basePhase item)"
  by (auto simp: createOrbitItem_def Let_def split: if_splits)

lemma orbitAngle_finite: "isFinite (basePhase item) \<Longrightarrow> isFinite (orbitAngle item e)"
  by (cases "basePhase item") (simp_all add: orbitAngle_def)

lemma updateOrbitItem_position:
  "o_active item \<Longrightarrow> 0 < radius item \<Longrightarrow>
   pos_x (updateOrbitItem item e st (o_sprite item)) = NaN
   \<and> pos_y (updateOrbitItem item e st (o_sprite item)) = NaN"
  by (simp add: updateOrbitItem_def Let_def numProp_cx numProp_cy)

lemma moon_init:
  "Orbit_init [builtLayer 0 ((createDefaultLayer ''moon'') \<lparr> position := Some (70, 50), orbitRPM := JNumber (Fin 10) \<rparr>)]
   = \<lparr> op_items = [\<lparr> o_sprite = 0, o_layerId = ''moon'',
          o_cfg = (createDefaultLayer ''moon'') \<lparr> position := Some (70, 50), orbitRPM := JNumber (Fin 10) \<rparr>,
          o_direction = 1, o_radPerSecond = 10 * pi / 30, centerPercent = (50, 50),
          centerPixels = (512, 512), radius = 1024 / 5, basePhase = Fin 0, orientPolicy = PolicyNone,
          orientRadians = 0, spinRpm = 0, o_active = True \<rparr>], op_elapsedTime = 0 \<rparr>"
  by (simp add: Orbit_init_def createOrbitItem_def createOrbitConfig_def builtLayer_def
      createDefaultLayer_def clampRpm60_Fin configuredCoords_def percentToStageCoords_def
      projectToRectBorder_def STAGE_WIDTH_def STAGE_HEIGHT_def clamp_def hypot_zero_right
      finiteNumber_def atan2_def toRad_def normDeg_def jsrem_def trunc_def Let_def)

lemma moon_tick:
  "Orbit_tick (3 / 2) (\<lparr> op_items = [\<lparr> o_sprite = 0, o_layerId = ''moon'',
          o_cfg = (createDefaultLayer ''moon'') \<lparr> position := Some (70, 50), orbitRPM := JNumber (Fin 10) \<rparr>,
          o_direction = 1, o_radPerSecond = 10 * pi / 30, centerPercent = (50, 50),
          centerPixels = (512, 512), radius = 1024 / 5, basePhase = Fin 0, orientPolicy = PolicyNone,
          orientRadians = 0, spinRpm = 0, o_active = True \<rparr>], op_elapsedTime = 0 \<rparr>, freshStore)
   = (\<lparr> op_items = [\<lparr> o_sprite = 0, o_layerId = ''moon'',
          o_cfg = (createDefaultLayer ''moon'') \<lparr> position := Some (70, 50), orbitRPM := JNumber (Fin 10) \<rparr>,
          o_direction = 1, o_radPerSecond = 10 * pi / 30, centerPercent = (50, 50),
          centerPixels = (512, 512), radius = 1024 / 5, basePhase = Fin 0, orientPolicy = PolicyNone,
          orientRadians = 0, spinRpm = 0, o_active = True \<rparr>], op_elapsedTime = 3 / 2 \<rparr>,
      freshStore (0 := newSprite \<lparr> pos_x := NaN, pos_y := NaN \<rparr>))"
  by (simp add: Orbit_tick_def updateOrbitItem_def numProp_cx numProp_cy freshStore_def Let_def)

lemma moon_radius:
  "radius (fst (recomputeOrbitItem \<lparr> o_sprite = 0, o_layerId = ''moon'',
          o_cfg = (createDefaultLayer ''moon'') \<lparr> position := Some (70, 50), orbitRPM := JNumber (Fin 10) \<rparr>,
          o_direction = 1, o_radPerSecond = 10 * pi / 30, centerPercent = (50, 50),
          centerPixels = (512, 512), radius = 1024 / 5, basePhase = Fin 0, orientPolicy = PolicyNone,
          orientRadians = 0, spinRpm = 0, o_active = True \<rparr> e st)) = 1024 / 5"
  by (simp add: recompute_radius createDefaultLayer_def configuredCoords_def
      percentToStageCoords_def projectToRectBorder_def STAGE_WIDTH_def STAGE_HEIGHT_def
      hypot_zero_right Let_def)

lemma moon_resize:
  "Orbit_onResize (\<lparr> op_items = [\<lparr> o_sprite = 0, o_layerId = ''moon'',
          o_cfg = (createDefaultLayer ''moon'') \<lparr> position := Some (70, 50), orbitRPM := JNumber (Fin 10) \<rparr>,
          o_direction = 1, o_radPerSecond = 10 * pi / 30, centerPercent = (50, 50),
          centerPixels = (512, 512), radius = 1024 / 5, basePhase = Fin 0, orientPolicy = PolicyNone,
          orientRadians = 0, spinRpm = 0, o_active = True \<rparr>], op_elapsedTime = 3 / 2 \<rparr>,
      freshStore (0 := newSprite \<lparr> pos_x := NaN, pos_y := NaN \<rparr>))
   = (\<lparr> op_items = [\<lparr> o_sprite = 0, o_layerId = ''moon'',
          o_cfg = (createDefaultLayer ''moon'') \<lparr> position := Some (70, 50), orbitRPM := JNumber (Fin 10) \<rparr>,
          o_direction = 1, o_radPerSecond = 10 * pi / 30, centerPercent = (50, 50),
          centerPixels = (512, 512), radius = 1024 / 5, basePhase = NaN, orientPolicy = PolicyNone,
          orientRadians = 0, spinRpm = 0, o_active = True \<rparr>], op_elapsedTime = 3 / 2 \<rparr>,
      freshStore (0 := newSprite \<lparr> pos_x := NaN, pos_y := NaN \<rparr>))"
  by (simp add: Orbit_onResize_def recomputeOrbitItem_def recompute_old_angle js_sub_NaN_left
      js_add_NaN_right js_mul_NaN_right
      createDefaultLayer_def configuredCoords_def percentToStageCoords_def
      projectToRectBorder_def STAGE_WIDTH_def STAGE_HEIGHT_def hypot_zero_right Let_def)

text \<open>
  Claim C2 does not hold of the code.  \<open>updateOrbitItem\<close> and
  \<open>recomputeOrbitItem\<close> read the center of the orbit as \<open>item.centerPixels.cx\<close>
  and \<open>item.centerPixels.cy\<close>, while the object stored in \<open>centerPixels\<close> has
  the keys \<open>x\<close> and \<open>y\<close>: both reads give \<open>undefined\<close>.  So whenever the radius
  that \<open>recomputeOrbitItem\<close> derives is positive, the angle it reads for the
  drawable is \<open>NaN\<close>, the base phase becomes \<open>NaN\<close>, the per-frame formula
  gives \<open>NaN\<close> at every elapsed time, and the drawable is placed at \<open>NaN\<close> in
  both coordinates; nothing of the angle is preserved.  When the derived radius
  is 0, the base phase and the drawable are left as they were.  The orbit update
  of an active item of positive radius, too, writes \<open>NaN\<close> to both coordinates.
  An item as \<open>createOrbitItem\<close> made it has a finite angle at every elapsed time
  and a positive derived radius, which repeated recomputation does not change:
  every recomputation of such an item loses the angle.  \<open>onResize\<close> recomputes
  each item, and \<open>updateCenter\<close> recomputes the item found, with its center
  replaced by the clamped new one.  For a layer placed at (70%, 50%) that orbits
  the middle of the stage at 10 RPM, the formula gives \<open>pi / 2\<close> at 1.5 s after
  \<open>init\<close>; a tick of 1.5 s places the drawable at \<open>NaN\<close>, and a resize then
  leaves the item with the base phase \<open>NaN\<close> and the angle \<open>NaN\<close> at 1.5 s.
\<close>

theorem recompute_loses_angle:
  "(0 < radius (fst (recomputeOrbitItem item e st)) \<longrightarrow>
      basePhase (fst (recomputeOrbitItem item e st)) = NaN
      \<and> orbitAngle (fst (recomputeOrbitItem item e st)) e' = NaN
      \<and> pos_x (snd (recomputeOrbitItem item e st) (o_sprite item)) = NaN
      \<and> pos_y (snd (recomputeOrbitItem item e st) (o_sprite item)) = NaN)
   \<and> (radius (fst (recomputeOrbitItem item e st)) \<le> 0 \<longrightarrow>
        basePhase (fst (recomputeOrbitItem item e st)) = basePhase item
        \<and> snd (recomputeOrbitItem item e st) = st)
   \<and> (o_active item \<and> 0 < radius item \<longrightarrow>
        pos_x (updateOrbitItem item e st (o_sprite item)) = NaN
        \<and> pos_y (updateOrbitItem item e st (o_sprite item)) = NaN)
   \<and> (createOrbitItem layer m = Some item \<longrightarrow>
        isFinite (orbitAngle item e)
        \<and> radius (fst (recomputeOrbitItem item e st)) = radius item \<and> 0 < radius item
        \<and> \<not> isFinite (orbitAngle (fst (recomputeOrbitItem item e st)) e))
   \<and> radius (fst (recomputeOrbitItem (fst (recomputeOrbitItem item e st)) e' st'))
        = radius (fst (recomputeOrbitItem item e st))
   \<and> Orbit_onResize (\<lparr> op_items = [item], op_elapsedTime = e \<rparr>, st)
        = (\<lparr> op_items = [fst (recomputeOrbitItem item e st)], op_elapsedTime = e \<rparr>,
           snd (recomputeOrbitItem item e st))
   \<and> (o_layerId item = lid \<longrightarrow>
        Orbit_updateCenter lid c (\<lparr> op_items = item # rest, op_elapsedTime = e \<rparr>, st)
        = (\<lparr> op_items = fst (recomputeOrbitItem
                   (item \<lparr> centerPercent := (clamp (fst c) 0 100, clamp (snd c) 0 100) \<rparr>) e st) # rest,
              op_elapsedTime = e \<rparr>,
           snd (recomputeOrbitItem
                   (item \<lparr> centerPercent := (clamp (fst c) 0 100, clamp (snd c) 0 100) \<rparr>) e st)))
   \<and> Orbit_init [builtLayer 0 ((createDefaultLayer ''moon'') \<lparr> position := Some (70, 50), orbitRPM := JNumber (Fin 10) \<rparr>)]
       = \<lparr> op_items = [\<lparr> o_sprite = 0, o_layerId = ''moon'',
          o_cfg = (createDefaultLayer ''moon'') \<lparr> position := Some (70, 50), orbitRPM := JNumber (Fin 10) \<rparr>,
          o_direction = 1, o_radPerSecond = 10 * pi / 30, centerPercent = (50, 50),
          centerPixels = (512, 512), radius = 1024 / 5, basePhase = Fin 0, orientPolicy = PolicyNone,
          orientRadians = 0, spinRpm = 0, o_active = True \<rparr>], op_elapsedTime = 0 \<rparr>
   \<and> orbitAngle \<lparr> o_sprite = 0, o_layerId = ''moon'',
          o_cfg = (createDefaultLayer ''moon'') \<lparr> position := Some (70, 50), orbitRPM := JNumber (Fin 10) \<rparr>,
          o_direction = 1, o_radPerSecond = 10 * pi / 30, centerPercent = (50, 50),
          centerPixels = (512, 512), radius = 1024 / 5, basePhase = Fin 0, orientPolicy = PolicyNone,
          orientRadians = 0, spinRpm = 0, o_active = True \<rparr> (3 / 2) = Fin (pi / 2)
   \<and> Orbit_tick (3 / 2) (Orbit_init [builtLayer 0 ((createDefaultLayer ''moon'') \<lparr> position := Some (70, 50), orbitRPM := JNumber (Fin 10) \<rparr>)], freshStore)
       = (\<lparr> op_items = [\<lparr> o_sprite = 0, o_layerId = ''moon'',
          o_cfg = (createDefaultLayer ''moon'') \<lparr> position := Some (70, 50), orbitRPM := JNumber (Fin 10) \<rparr>,
          o_direction = 1, o_radPerSecond = 10 * pi / 30, centerPercent = (50, 50),
          centerPixels = (512, 512), radius = 1024 / 5, basePhase = Fin 0, orientPolicy = PolicyNone,
          orientRadians = 0, spinRpm = 0, o_active = True \<rparr>], op_elapsedTime = 3 / 2 \<rparr>,
          freshStore (0 := newSprite \<lparr> pos_x := NaN, pos_y := NaN \<rparr>))
   \<and> Orbit_onResize (Orbit_tick (3 / 2) (Orbit_init [builtLayer 0 ((createDefaultLayer ''moon'') \<lparr> position := Some (70, 50), orbitRPM := JNumber (Fin 10) \<rparr>)], freshStore))
       = (\<lparr> op_items = [\<lparr> o_sprite = 0, o_layerId = ''moon'',
          o_cfg = (createDefaultLayer ''moon'') \<lparr> position := Some (70, 50), orbitRPM := JNumber (Fin 10) \<rparr>,
          o_direction = 1, o_radPerSecond = 10 * pi / 30, centerPercent = (50, 50),
          centerPixels = (512, 512), radius = 1024 / 5, basePhase = NaN, orientPolicy = PolicyNone,
          orientRadians = 0, spinRpm = 0, o_active = True \<rparr>], op_elapsedTime = 3 / 2 \<rparr>,
          freshStore (0 := newSprite \<lparr> pos_x := NaN, pos_y := NaN \<rparr>))
   \<and> orbitAngle \<lparr> o_sprite = 0, o_layerId = ''moon'',
          o_cfg = (createDefaultLayer ''moon'') \<lparr> position := Some (70, 50), orbitRPM := JNumber (Fin 10) \<rparr>,
          o_direction = 1, o_radPerSecond = 10 * pi / 30, centerPercent = (50, 50),
          centerPixels = (512, 512), radius = 1024 / 5, basePhase = NaN, orientPolicy = PolicyNone,
          orientRadians = 0, spinRpm = 0, o_active = True \<rparr> (3 / 2) = NaN"
proof -
  let ?r = "recomputeOrbitItem item e st"
  have pos: "0 < radius (fst ?r) \<longrightarrow>
      basePhase (fst ?r) = NaN \<and> orbitAngle (fst ?r) e' = NaN
      \<and> pos_x (snd ?r (o_sprite item)) = NaN \<and> pos_y (snd ?r (o_sprite item)) = NaN"
    using recompute_positive [of item e st] by (simp add: orbitAngle_def)
  have zero: "radius (fst ?r) \<le> 0 \<longrightarrow> basePhase (fst ?r) = basePhase item \<and> snd ?r = st"
    using recompute_zero [of item e st] by blast
  have upd: "o_active item \<and> 0 < radius item \<longrightarrow>
        pos_x (updateOrbitItem item e st (o_sprite item)) = NaN
        \<and> pos_y (updateOrbitItem item e st (o_sprite item)) = NaN"
    using updateOrbitItem_position [of item e st] by blast
  have cre: "isFinite (orbitAngle item e)
        \<and> radius (fst ?r) = radius item \<and> 0 < radius item
        \<and> \<not> isFinite (orbitAngle (fst ?r) e)"
    if c: "createOrbitItem layer m = Some item"
  proof -
    from recompute_created [OF c, of e st]
    have r: "radius (fst ?r) = radius item" "0 < radius item" by simp_all
    then have "0 < radius (fst ?r)" by simp
    then have "basePhase (fst ?r) = NaN" by (rule recompute_positive(1))
    then have "orbitAngle (fst ?r) e = NaN" by (simp add: orbitAngle_def)
    with r orbitAngle_finite [OF createOrbitItem_phase [OF c], of e] show ?thesis by simp
  qed
  have resize: "Orbit_onResize (\<lparr> op_items = [item], op_elapsedTime = e \<rparr>, st)
        = (\<lparr> op_items = [fst ?r], op_elapsedTime = e \<rparr>, snd ?r)"
    by (simp add: Orbit_onResize_def Let_def)
  have center: "o_layerId item = lid \<longrightarrow>
        Orbit_updateCenter lid c (\<lparr> op_items = item # rest, op_elapsedTime = e \<rparr>, st)
        = (\<lparr> op_items = fst (recomputeOrbitItem
                   (item \<lparr> centerPercent := (clamp (fst c) 0 100, clamp (snd c) 0 100) \<rparr>) e st) # rest,
              op_elapsedTime = e \<rparr>,
           snd (recomputeOrbitItem
                   (item \<lparr> centerPercent := (clamp (fst c) 0 100, clamp (snd c) 0 100) \<rparr>) e st))"
    by (simp add: Orbit_updateCenter_def Let_def)
  have a0: "orbitAngle \<lparr> o_sprite = 0, o_layerId = ''moon'',
          o_cfg = (createDefaultLayer ''moon'') \<lparr> position := Some (70, 50), orbitRPM := JNumber (Fin 10) \<rparr>,
          o_direction = 1, o_radPerSecond = 10 * pi / 30, centerPercent = (50, 50),
          centerPixels = (512, 512), radius = 1024 / 5, basePhase = Fin 0, orientPolicy = PolicyNone,
          orientRadians = 0, spinRpm = 0, o_active = True \<rparr> (3 / 2) = Fin (pi / 2)"
    by (simp add: orbitAngle_def)
  have a1: "orbitAngle \<lparr> o_sprite = 0, o_layerId = ''moon'',
          o_cfg = (createDefaultLayer ''moon'') \<lparr> position := Some (70, 50), orbitRPM := JNumber (Fin 10) \<rparr>,
          o_direction = 1, o_radPerSecond = 10 * pi / 30, centerPercent = (50, 50),
          centerPixels = (512, 512), radius = 1024 / 5, basePhase = NaN, orientPolicy = PolicyNone,
          orientRadians = 0, spinRpm = 0, o_active = True \<rparr> (3 / 2) = NaN"
    by (simp add: orbitAngle_def)
  have t: "Orbit_tick (3 / 2) (Orbit_init [builtLayer 0 ((createDefaultLayer ''moon'') \<lparr> position := Some (70, 50), orbitRPM := JNumber (Fin 10) \<rparr>)], freshStore)
       = (\<lparr> op_items = [\<lparr> o_sprite = 0, o_layerId = ''moon'',
          o_cfg = (createDefaultLayer ''moon'') \<lparr> position := Some (70, 50), orbitRPM := JNumber (Fin 10) \<rparr>,
          o_direction = 1, o_radPerSecond = 10 * pi / 30, centerPercent = (50, 50),
          centerPixels = (512, 512), radius = 1024 / 5, basePhase = Fin 0, orientPolicy = PolicyNone,
          orientRadians = 0, spinRpm = 0, o_active = True \<rparr>], op_elapsedTime = 3 / 2 \<rparr>,
          freshStore (0 := newSprite \<lparr> pos_x := NaN, pos_y := NaN \<rparr>))"
    by (simp only: moon_init moon_tick)
  have z: "Orbit_onResize (Orbit_tick (3 / 2) (Orbit_init [builtLayer 0 ((createDefaultLayer ''moon'') \<lparr> position := Some (70, 50), orbitRPM := JNumber (Fin 10) \<rparr>)], freshStore))
       = (\<lparr> op_items = [\<lparr> o_sprite = 0, o_layerId = ''moon'',
          o_cfg = (createDefaultLayer ''moon'') \<lparr> position := Some (70, 50), orbitRPM := JNumber (Fin 10) \<rparr>,
          o_direction = 1, o_radPerSecond = 10 * pi / 30, centerPercent = (50, 50),
          centerPixels = (512, 512), radius = 1024 / 5, basePhase = NaN, orientPolicy = PolicyNone,
          orientRadians = 0, spinRpm = 0, o_active = True \<rparr>], op_elapsedTime = 3 / 2 \<rparr>,
          freshStore (0 := newSprite \<lparr> pos_x := NaN, pos_y := NaN \<rparr>))"
    by (simp only: t moon_resize)
  show ?thesis
    using pos zero upd cre recompute_again [of item e st e' st'] resize center moon_init a0 t z a1
    by (intro conjI impI) (assumption | blast)+
qed

theorem recompute_loses_angle_witness:
  "createOrbitItem (builtLayer 0 ((createDefaultLayer ''moon'') \<lparr> position := Some (70, 50), orbitRPM := JNumber (Fin 10) \<rparr>)) Map.empty
     = Some \<lparr> o_sprite = 0, o_layerId = ''moon'',
          o_cfg = (createDefaultLayer ''moon'') \<lparr> position := Some (70, 50), orbitRPM := JNumber (Fin 10) \<rparr>,
          o_direction = 1, o_radPerSecond = 10 * pi / 30, centerPercent = (50, 50),
          centerPixels = (512, 512), radius = 1024 / 5, basePhase = Fin 0, orientPolicy = PolicyNone,
          orientRadians = 0, spinRpm = 0, o_active = True \<rparr>
   \<and> o_active \<lparr> o_sprite = 0, o_layerId = ''moon'',
          o_cfg = (createDefaultLayer ''moon'') \<lparr> position := Some (70, 50), orbitRPM := JNumber (Fin 10) \<rparr>,
          o_direction = 1, o_radPerSecond = 10 * pi / 30, centerPercent = (50, 50),
          centerPixels = (512, 512), radius = 1024 / 5, basePhase = Fin 0, orientPolicy = PolicyNone,
          orientRadians = 0, spinRpm = 0, o_active = True \<rparr>
   \<and> 0 < radius (fst (recomputeOrbitItem \<lparr> o_sprite = 0, o_layerId = ''moon'',
          o_cfg = (createDefaultLayer ''moon'') \<lparr> position := Some (70, 50), orbitRPM := JNumber (Fin 10) \<rparr>,
          o_direction = 1, o_radPerSecond = 10 * pi / 30, centerPercent = (50, 50),
          centerPixels = (512, 512), radius = 1024 / 5, basePhase = Fin 0, orientPolicy = PolicyNone,
          orientRadians = 0, spinRpm = 0, o_active = True \<rparr>
        (3 / 2) freshStore))
   \<and> isFinite (orbitAngle \<lparr> o_sprite = 0, o_layerId = ''moon'',
          o_cfg = (createDefaultLayer ''moon'') \<lparr> position := Some (70, 50), orbitRPM := JNumber (Fin 10) \<rparr>,
          o_direction = 1, o_radPerSecond = 10 * pi / 30, centerPercent = (50, 50),
          centerPixels = (512, 512), radius = 1024 / 5, basePhase = Fin 0, orientPolicy = PolicyNone,
          orientRadians = 0, spinRpm = 0, o_active = True \<rparr> (3 / 2))
   \<and> basePhase (fst (recomputeOrbitItem \<lparr> o_sprite = 0, o_layerId = ''moon'',
          o_cfg = (createDefaultLayer ''moon'') \<lparr> position := Some (70, 50), orbitRPM := JNumber (Fin 10) \<rparr>,
          o_direction = 1, o_radPerSecond = 10 * pi / 30, centerPercent = (50, 50),
          centerPixels = (512, 512), radius = 1024 / 5, basePhase = Fin 0, orientPolicy = PolicyNone,
          orientRadians = 0, spinRpm = 0, o_active = True \<rparr>
        (3 / 2) freshStore)) = NaN
   \<and> \<not> isFinite (orbitAngle (fst (recomputeOrbitItem \<lparr> o_sprite = 0, o_layerId = ''moon'',
          o_cfg = (createDefaultLayer ''moon'') \<lparr> position := Some (70, 50), orbitRPM := JNumber (Fin 10) \<rparr>,
          o_direction = 1, o_radPerSecond = 10 * pi / 30, centerPercent = (50, 50),
          centerPixels = (512, 512), radius = 1024 / 5, basePhase = Fin 0, orientPolicy = PolicyNone,
          orientRadians = 0, spinRpm = 0, o_active = True \<rparr>
        (3 / 2) freshStore)) (3 / 2))
   \<and> pos_x (snd (recomputeOrbitItem \<lparr> o_sprite = 0, o_layerId = ''moon'',
          o_cfg = (createDefaultLayer ''moon'') \<lparr> position := Some (70, 50), orbitRPM := JNumber (Fin 10) \<rparr>,
          o_direction = 1, o_radPerSecond = 10 * pi / 30, centerPercent = (50, 50),
          centerPixels = (512, 512), radius = 1024 / 5, basePhase = Fin 0, orientPolicy = PolicyNone,
          orientRadians = 0, spinRpm = 0, o_active = True \<rparr>
        (3 / 2) freshStore) 0) = NaN
   \<and> pos_x (updateOrbitItem \<lparr> o_sprite = 0, o_layerId = ''moon'',
          o_cfg = (createDefaultLayer ''moon'') \<lparr> position := Some (70, 50), orbitRPM := JNumber (Fin 10) \<rparr>,
          o_direction = 1, o_radPerSecond = 10 * pi / 30, centerPercent = (50, 50),
          centerPixels = (512, 512), radius = 1024 / 5, basePhase = Fin 0, orientPolicy = PolicyNone,
          orientRadians = 0, spinRpm = 0, o_active = True \<rparr>
        (3 / 2) freshStore 0) = NaN
   \<and> fst (Orbit_updateCenter ''moon'' (50, 80)
        (\<lparr> op_items = [\<lparr> o_sprite = 0, o_layerId = ''moon'',
          o_cfg = (createDefaultLayer ''moon'') \<lparr> position := Some (70, 50), orbitRPM := JNumber (Fin 10) \<rparr>,
          o_direction = 1, o_radPerSecond = 10 * pi / 30, centerPercent = (50, 50),
          centerPixels = (512, 512), radius = 1024 / 5, basePhase = Fin 0, orientPolicy = PolicyNone,
          orientRadians = 0, spinRpm = 0, o_active = True \<rparr>], op_elapsedTime = 3 / 2 \<rparr>, freshStore))
     = \<lparr> op_items = [fst (recomputeOrbitItem
           \<lparr> o_sprite = 0, o_layerId = ''moon'',
          o_cfg = (createDefaultLayer ''moon'') \<lparr> position := Some (70, 50), orbitRPM := JNumber (Fin 10) \<rparr>,
          o_direction = 1, o_radPerSecond = 10 * pi / 30, centerPercent = (50, 80),
          centerPixels = (512, 512), radius = 1024 / 5, basePhase = Fin 0, orientPolicy = PolicyNone,
          orientRadians = 0, spinRpm = 0, o_active = True \<rparr>
           (3 / 2) freshStore)], op_elapsedTime = 3 / 2 \<rparr>"
proof -
  have c: "createOrbitItem (builtLayer 0 ((createDefaultLayer ''moon'') \<lparr> position := Some (70, 50), orbitRPM := JNumber (Fin 10) \<rparr>)) Map.empty
     = Some \<lparr> o_sprite = 0, o_layerId = ''moon'',
          o_cfg = (createDefaultLayer ''moon'') \<lparr> position := Some (70, 50), orbitRPM := JNumber (Fin 10) \<rparr>,
          o_direction = 1, o_radPerSecond = 10 * pi / 30, centerPercent = (50, 50),
          centerPixels = (512, 512), radius = 1024 / 5, basePhase = Fin 0, orientPolicy = PolicyNone,
          orientRadians = 0, spinRpm = 0, o_active = True \<rparr>"
    by (simp add: createOrbitItem_def createOrbitConfig_def builtLayer_def
        createDefaultLayer_def clampRpm60_Fin configuredCoords_def percentToStageCoords_def
        projectToRectBorder_def STAGE_WIDTH_def STAGE_HEIGHT_def clamp_def hypot_zero_right
        finiteNumber_def atan2_def toRad_def normDeg_def jsrem_def trunc_def Let_def)
  show ?thesis
    using recompute_loses_angle
      [of "\<lparr> o_sprite = 0, o_layerId = ''moon'',
          o_cfg = (createDefaultLayer ''moon'') \<lparr> position := Some (70, 50), orbitRPM := JNumber (Fin 10) \<rparr>,
          o_direction = 1, o_radPerSecond = 10 * pi / 30, centerPercent = (50, 50),
          centerPixels = (512, 512), radius = 1024 / 5, basePhase = Fin 0, orientPolicy = PolicyNone,
          orientRadians = 0, spinRpm = 0, o_active = True \<rparr>"
          "3 / 2" freshStore "3 / 2" "builtLayer 0 ((createDefaultLayer ''moon'') \<lparr> position := Some (70, 50), orbitRPM := JNumber (Fin 10) \<rparr>)" Map.empty freshStore "''moon''" "(50, 80)" "[]"]
      c moon_radius [of "3 / 2" freshStore]
    by (simp add: clamp_def)
qed

end
